theory Spec2Isabelle
  imports Complex_Main "HOL-Library.Word" "HOL-Library.Signed_Division"
begin

unbundle bit_operations_syntax

section \<open>The SEN55 driver: data model\<close>

text \<open>
  The driver is the C++ class \<open>SEN55\<close> (header and implementation in one source part).
  Its private members are the fields of the record \<open>SEN55\<close> below; every method becomes
  a function that takes the object and returns it updated, next to its return value.
  Machine integers that are read bitwise are words; buffer lengths and indices are
  \<open>nat\<close> (they stay below 256, see \<open>I2C_ReadToBuffer\<close>).
\<close>

type_synonym u8 = "8 word"
type_synonym u16 = "16 word"
type_synonym s16 = "16 word"   \<comment> \<open>\<open>int16_t\<close>: the same 16 bits, read with \<open>sint\<close>\<close>
type_synonym u32 = "32 word"

subsection \<open>Constants of the header\<close>

abbreviation (input) DRIVER_MAJOR :: u8 where "DRIVER_MAJOR \<equiv> 1"
abbreviation (input) DRIVER_MINOR :: u8 where "DRIVER_MINOR \<equiv> 0"

abbreviation (input) STATUS_OK_55 :: u8 where "STATUS_OK_55 \<equiv> 0"
abbreviation (input) STATUS_SPEED_ERROR_55 :: u8 where "STATUS_SPEED_ERROR_55 \<equiv> 0x01"
abbreviation (input) STATUS_LASER_ERROR_55 :: u8 where "STATUS_LASER_ERROR_55 \<equiv> 0x02"
abbreviation (input) STATUS_FAN_ERROR_55 :: u8 where "STATUS_FAN_ERROR_55 \<equiv> 0x04"
abbreviation (input) STATUS_GAS_ERROR_55 :: u8 where "STATUS_GAS_ERROR_55 \<equiv> 0x08"
abbreviation (input) STATUS_RHT_ERROR_55 :: u8 where "STATUS_RHT_ERROR_55 \<equiv> 0x10"
abbreviation (input) STATUS_FAN_CLEAN_ACTIVE_55 :: u8 where "STATUS_FAN_CLEAN_ACTIVE_55 \<equiv> 0x20"

abbreviation (input) SEN55_START_MEASUREMENT :: u16 where "SEN55_START_MEASUREMENT \<equiv> 0x0021"
abbreviation (input) SEN55_START_RHTG_MEASUREMENT :: u16 where "SEN55_START_RHTG_MEASUREMENT \<equiv> 0x0037"
abbreviation (input) SEN55_STOP_MEASUREMENT :: u16 where "SEN55_STOP_MEASUREMENT \<equiv> 0x0104"
abbreviation (input) SEN55_READ_DATA_RDY_FLAG :: u16 where "SEN55_READ_DATA_RDY_FLAG \<equiv> 0x0202"
abbreviation (input) SEN55_READ_MEASURED_VALUE :: u16 where "SEN55_READ_MEASURED_VALUE \<equiv> 0x03C4"
abbreviation (input) SEN55_READ_MEASURED_VALUE_PM :: u16 where "SEN55_READ_MEASURED_VALUE_PM \<equiv> 0x0413"
abbreviation (input) SEN55_TEMP_COMP :: u16 where "SEN55_TEMP_COMP \<equiv> 0x60B2"
abbreviation (input) SEN55_WARM_START_PARAM :: u16 where "SEN55_WARM_START_PARAM \<equiv> 0x60C6"
abbreviation (input) SEN55_VOC_TUNING :: u16 where "SEN55_VOC_TUNING \<equiv> 0x60D0"
abbreviation (input) SEN55_NOX_TUNING :: u16 where "SEN55_NOX_TUNING \<equiv> 0x60E1"
abbreviation (input) SEN55_RHT_ACCEL :: u16 where "SEN55_RHT_ACCEL \<equiv> 0x60F7"
abbreviation (input) SEN55_VOC_ALGO :: u16 where "SEN55_VOC_ALGO \<equiv> 0x6181"
abbreviation (input) SEN55_START_FAN_CLEANING :: u16 where "SEN55_START_FAN_CLEANING \<equiv> 0x5607"
abbreviation (input) SEN55_AUTO_CLEANING_INTERVAL :: u16 where "SEN55_AUTO_CLEANING_INTERVAL \<equiv> 0x8004"
abbreviation (input) SEN55_READ_PRODUCT_NAME :: u16 where "SEN55_READ_PRODUCT_NAME \<equiv> 0xD014"
abbreviation (input) SEN55_READ_SERIAL_NUMBER :: u16 where "SEN55_READ_SERIAL_NUMBER \<equiv> 0xD033"
abbreviation (input) SEN55_READ_VERSION :: u16 where "SEN55_READ_VERSION \<equiv> 0xD100"
abbreviation (input) SEN55_READ_DEVICE_REGISTER :: u16 where "SEN55_READ_DEVICE_REGISTER \<equiv> 0xD206"
abbreviation (input) SEN55_CLEAR_DEVICE_REGISTER :: u16 where "SEN55_CLEAR_DEVICE_REGISTER \<equiv> 0xD210"
abbreviation (input) SEN55_RESET :: u16 where "SEN55_RESET \<equiv> 0xD304"

text \<open>The write helpers: pseudo-commands that only select a case of \<open>I2C_fill_buffer\<close>.\<close>

abbreviation (input) SEN55_SET_AUTO_CLEANING_INTERVAL :: u16 where "SEN55_SET_AUTO_CLEANING_INTERVAL \<equiv> 0x55FF"
abbreviation (input) SEN55_SET_VOC_ALGO :: u16 where "SEN55_SET_VOC_ALGO \<equiv> 0x55FE"
abbreviation (input) SEN55_SET_NOX_TUNING :: u16 where "SEN55_SET_NOX_TUNING \<equiv> 0x55FD"
abbreviation (input) SEN55_SET_TEMP_COMP :: u16 where "SEN55_SET_TEMP_COMP \<equiv> 0x55FC"
abbreviation (input) SEN55_SET_WARM_START_PARAM :: u16 where "SEN55_SET_WARM_START_PARAM \<equiv> 0x55FB"
abbreviation (input) SEN55_SET_RHT_ACCEL :: u16 where "SEN55_SET_RHT_ACCEL \<equiv> 0x55FA"
abbreviation (input) SEN55_SET_VOC_TUNING :: u16 where "SEN55_SET_VOC_TUNING \<equiv> 0x55F9"

abbreviation (input) SEN55_ERR_OK :: u8 where "SEN55_ERR_OK \<equiv> 0x00"
abbreviation (input) SEN55_ERR_DATALENGTH :: u8 where "SEN55_ERR_DATALENGTH \<equiv> 0x01"
abbreviation (input) SEN55_ERR_UNKNOWNCMD :: u8 where "SEN55_ERR_UNKNOWNCMD \<equiv> 0x02"
abbreviation (input) SEN55_ERR_ACCESSRIGHT :: u8 where "SEN55_ERR_ACCESSRIGHT \<equiv> 0x03"
abbreviation (input) SEN55_ERR_PARAMETER :: u8 where "SEN55_ERR_PARAMETER \<equiv> 0x04"
abbreviation (input) SEN55_ERR_OUTOFRANGE :: u8 where "SEN55_ERR_OUTOFRANGE \<equiv> 0x28"
abbreviation (input) SEN55_ERR_CMDSTATE :: u8 where "SEN55_ERR_CMDSTATE \<equiv> 0x43"
abbreviation (input) SEN55_ERR_TIMEOUT :: u8 where "SEN55_ERR_TIMEOUT \<equiv> 0x50"
abbreviation (input) SEN55_ERR_PROTOCOL :: u8 where "SEN55_ERR_PROTOCOL \<equiv> 0x51"
abbreviation (input) SEN55_ERR_FIRMWARE :: u8 where "SEN55_ERR_FIRMWARE \<equiv> 0x88"

abbreviation (input) MAXBUFLENGTH :: nat where "MAXBUFLENGTH \<equiv> 50"
abbreviation (input) VOC_ALO_SIZE :: nat where "VOC_ALO_SIZE \<equiv> 8"

subsection \<open>Structures of the header\<close>

text \<open>
  The measurement fields are C \<open>float\<close>s computed as \<open>(float) word / (float) scale\<close>.
  The word and the scale are exactly representable in binary32, so the field is the
  exact quotient rounded to binary32. A field of the records below holds the real value
  of that float; the rounding of the binary32 division is the parameter \<open>rnd\<close> of
  \<open>GetValues\<close> and \<open>GetValuesPM\<close>. \<open>memset\<close> to zero gives the float 0.
\<close>

record sen_values =
  MassPM1 :: real
  MassPM2 :: real
  MassPM4 :: real
  MassPM10 :: real
  Hum :: real
  Temp :: real
  VOC :: real
  NOX :: real

record sen_values_pm =
  pm_MassPM1 :: real
  pm_MassPM2 :: real
  pm_MassPM4 :: real
  pm_MassPM10 :: real
  pm_NumPM0 :: real
  pm_NumPM1 :: real
  pm_NumPM2 :: real
  pm_NumPM4 :: real
  pm_NumPM10 :: real
  pm_PartSize :: real

record sen_version =
  F_major :: u8
  F_minor :: u8
  F_debug :: bool
  H_major :: u8
  H_minor :: u8
  P_major :: u8
  P_minor :: u8
  L_major :: u8
  L_minor :: u8

record sen_xox =
  IndexOffset :: s16
  LearnTimeOffsetHours :: s16
  LearnTimeGainHours :: s16
  GateMaxDurationMin :: s16
  stdInitial :: s16
  GainFactor :: s16

record sen_tmp_comp =
  offset :: s16
  slope :: s16
  time :: u16

text \<open>
  \<open>I2C_fill_buffer\<close> takes a \<open>void *\<close> that it casts according to the command: to a byte
  table, to a \<open>sen_xox\<close> or to a \<open>sen_tmp_comp\<close>. The default argument is \<open>NULL\<close>.
\<close>

datatype payload = NoVal | Table "u8 list" | Xox sen_xox | TmpComp sen_tmp_comp

subsection \<open>The session object and its surroundings\<close>

text \<open>
  What the driver does to the outside world: a write transaction on the bus
  (\<open>beginTransmission\<close>, \<open>write\<close>, \<open>endTransmission\<close>), a blocking \<open>delay\<close> in
  milliseconds, a read request for a number of bytes, and a restart of the port.
\<close>

datatype event = Transmit "u8 list" | Delay nat | RequestFrom nat | PortBegin

text \<open>
  The first group of fields are the private members of the class (the leading underscore
  of their names dropped). The second group is the environment the methods act on:
  \<^item> \<open>max_32_to_expect\<close>: whether the build defines \<open>MAX_32_TO_EXPECT\<close> (AVR boards);
  \<^item> \<open>wire_rx\<close>: the receive buffer of the \<open>TwoWire\<close> port, what \<open>available()\<close> and
    \<open>read()\<close> see;
  \<^item> \<open>device_out\<close>: the bytes the bus will deliver to the successive \<open>requestFrom\<close>
    calls, one list for each call;
  \<^item> \<open>trace\<close>: the log of the effects, each with the value of \<open>_started\<close> at the moment
    it happens;
  \<^item> \<open>ub\<close>: set when the C code leaves defined behaviour (a store beyond
    \<open>_Receive_BUF\<close>, a dereferenced \<open>NULL\<close> payload); nothing is claimed about the object
    once it is set.
\<close>

record SEN55 =
  Receive_BUF :: "u8 list"
  Send_BUF :: "u8 list"
  Receive_BUF_Length :: nat
  Send_BUF_Length :: nat
  started :: bool
  FW_Major :: u8
  FW_Minor :: u8
  data32 :: u32
  data16 :: u16
  max_32_to_expect :: bool
  wire_rx :: "u8 list"
  device_out :: "u8 list list"
  trace :: "(bool \<times> event) list"
  ub :: bool

definition emit :: "event \<Rightarrow> SEN55 \<Rightarrow> SEN55" where
  "emit e s = s\<lparr>trace := trace s @ [(started s, e)]\<rparr>"

text \<open>
  The constructor initialises the two lengths, the started flag and the firmware level,
  and nothing else: \<open>data32\<close>, \<open>data16\<close> and the buffers keep what the storage held.
\<close>

definition SEN55_ctor :: "SEN55 \<Rightarrow> SEN55" where
  "SEN55_ctor s = s\<lparr>Send_BUF_Length := 0, Receive_BUF_Length := 0, started := False,
     FW_Major := 0, FW_Minor := 0\<rparr>"

text \<open>
  The storage of a global object (\<open>SEN55 sen55;\<close> in the sketches) is zeroed before the
  constructor runs.
\<close>

definition static_storage :: "bool \<Rightarrow> u8 list list \<Rightarrow> SEN55" where
  "static_storage avr dev = \<lparr>Receive_BUF = replicate MAXBUFLENGTH 0,
     Send_BUF = replicate MAXBUFLENGTH 0, Receive_BUF_Length = 0, Send_BUF_Length = 0,
     started = False, FW_Major = 0, FW_Minor = 0, data32 = 0, data16 = 0,
     max_32_to_expect = avr, wire_rx = [], device_out = dev, trace = [], ub = False\<rparr>"

section \<open>Checksum\<close>

text \<open>
  \<open>I2C_calc_CRC(uint8_t data[2])\<close>: the accumulator starts at \<open>0xFF\<close>; each of the two
  bytes is XORed in and followed by eight shift steps, each XORing the polynomial \<open>0x31\<close>
  when the high bit was set. The argument is a pointer into a buffer: the list that
  starts at the pointed byte.
\<close>

fun crc_bits :: "nat \<Rightarrow> u8 \<Rightarrow> u8" where
  "crc_bits 0 crc = crc"
| "crc_bits (Suc n) crc =
     crc_bits n (if crc AND 0x80 \<noteq> 0 then push_bit 1 crc XOR 0x31 else push_bit 1 crc)"

fun crc_bytes :: "nat \<Rightarrow> u8 list \<Rightarrow> nat \<Rightarrow> u8 \<Rightarrow> u8" where
  "crc_bytes 0 data i crc = crc"
| "crc_bytes (Suc n) data i crc = crc_bytes n data (i + 1) (crc_bits 8 (crc XOR data ! i))"

definition I2C_calc_CRC :: "u8 list \<Rightarrow> u8" where
  "I2C_calc_CRC data = crc_bytes 2 data 0 0xFF"

section \<open>Frame building\<close>

text \<open>\<open>x >> n & 0xff\<close> stored into a byte.\<close>

definition shr_byte :: "nat \<Rightarrow> 'a::len word \<Rightarrow> u8" where
  "shr_byte n x = ucast (drop_bit n x AND 0xff)"

text \<open>
  \<open>_Send_BUF[i++] = b\<close> and \<open>_Send_BUF[i++] = I2C_calc_CRC(&_Send_BUF[st])\<close>, on the pair
  of the buffer and the index \<open>i\<close>.
\<close>

definition put :: "u8 \<Rightarrow> u8 list \<times> nat \<Rightarrow> u8 list \<times> nat" where
  "put b = (\<lambda>(buf, i). (buf[i := b], i + 1))"

definition put_crc :: "nat \<Rightarrow> u8 list \<times> nat \<Rightarrow> u8 list \<times> nat" where
  "put_crc st = (\<lambda>(buf, i). (buf[i := I2C_calc_CRC (drop st buf)], i + 1))"

text \<open>
  The loop of the \<open>SEN55_SET_VOC_ALGO\<close> case:
  \<^verbatim>\<open>for (int j = 0, k = 0 ; j < VOC_ALO_SIZE;) {
    _Send_BUF[i++] = vv[j++] & 0xff;
    if (k++ > 2) { uint8_t st = i - j; _Send_BUF[i++] = I2C_calc_CRC(&_Send_BUF[st]); k = 0; }
  }\<close>
  The test reads \<open>k\<close> before the increment; \<open>st\<close> is computed after \<open>i\<close> and \<open>j\<close> were
  incremented.
\<close>

function voc_loop :: "u8 list \<Rightarrow> nat \<Rightarrow> nat \<Rightarrow> u8 list \<times> nat \<Rightarrow> u8 list \<times> nat" where
  "voc_loop vv j k (buf, i) =
     (if j < VOC_ALO_SIZE then
        (let buf1 = buf[i := vv ! j AND 0xff]; i1 = i + 1; j1 = j + 1 in
         if k > 2 then
           (let st = i1 - j1; buf2 = buf1[i1 := I2C_calc_CRC (drop st buf1)]
            in voc_loop vv j1 0 (buf2, i1 + 1))
         else voc_loop vv j1 (k + 1) (buf1, i1))
      else (buf, i))"
  by pat_completeness auto
termination
  by (relation "measure (\<lambda>(vv, j, k, bi). VOC_ALO_SIZE - j)") auto

definition run_steps :: "(u8 list \<times> nat \<Rightarrow> u8 list \<times> nat) list \<Rightarrow> u8 list \<times> nat" where
  "run_steps steps = foldl (\<lambda>acc step. step acc) (replicate MAXBUFLENGTH 0, 0) steps"

definition filled :: "u8 list \<times> nat \<Rightarrow> SEN55 \<Rightarrow> SEN55" where
  "filled = (\<lambda>(buf, i) s. s\<lparr>Send_BUF := buf, Send_BUF_Length := i\<rparr>)"

text \<open>
  A case that reads through the payload pointer when the caller passed none, or one of
  another type: undefined behaviour in C, recorded in \<open>ub\<close>.
\<close>

definition bad_payload :: "SEN55 \<Rightarrow> SEN55" where
  "bad_payload s = s\<lparr>Send_BUF := replicate MAXBUFLENGTH 0, Send_BUF_Length := 0, ub := True\<rparr>"

definition xox_steps :: "u16 \<Rightarrow> sen_xox \<Rightarrow> (u8 list \<times> nat \<Rightarrow> u8 list \<times> nat) list" where
  "xox_steps reg n =
     [put (shr_byte 8 reg), put (shr_byte 0 reg),
      put (shr_byte 8 (IndexOffset n)), put (shr_byte 0 (IndexOffset n)), put_crc 2,
      put (shr_byte 8 (LearnTimeOffsetHours n)), put (shr_byte 0 (LearnTimeOffsetHours n)),
      put_crc 5,
      put (shr_byte 8 (LearnTimeGainHours n)), put (shr_byte 0 (LearnTimeGainHours n)),
      put_crc 8,
      put (shr_byte 8 (GateMaxDurationMin n)), put (shr_byte 0 (GateMaxDurationMin n)),
      put_crc 11,
      put (shr_byte 8 (stdInitial n)), put (shr_byte 0 (stdInitial n)), put_crc 14,
      put (shr_byte 8 (GainFactor n)), put (shr_byte 0 (GainFactor n)), put_crc 17]"

text \<open>
  \<open>I2C_fill_buffer(cmd, val)\<close>: clears \<open>_Send_BUF\<close>, then writes the frame of the command
  and sets \<open>_Send_BUF_Length\<close>. The set-commands are the \<open>switch\<close> cases; every other
  command is the two opcode bytes.
\<close>

definition I2C_fill_buffer :: "u16 \<Rightarrow> payload \<Rightarrow> SEN55 \<Rightarrow> SEN55" where
  "I2C_fill_buffer cmd val s =
    (if cmd = SEN55_SET_AUTO_CLEANING_INTERVAL then
       filled (run_steps
         [put (shr_byte 8 SEN55_AUTO_CLEANING_INTERVAL), put (shr_byte 0 SEN55_AUTO_CLEANING_INTERVAL),
          put (shr_byte 24 (data32 s)), put (shr_byte 16 (data32 s)), put_crc 2,
          put (shr_byte 8 (data32 s)), put (shr_byte 0 (data32 s)), put_crc 5]) s
     else if cmd = SEN55_SET_VOC_ALGO then
       (case val of
          Table vv \<Rightarrow> filled (run_steps
            [put (shr_byte 8 SEN55_VOC_ALGO), put (shr_byte 0 SEN55_VOC_ALGO), voc_loop vv 0 0]) s
        | _ \<Rightarrow> bad_payload s)
     else if cmd = SEN55_SET_NOX_TUNING then
       (case val of
          Xox n \<Rightarrow> filled (run_steps (xox_steps SEN55_NOX_TUNING n)) s
        | _ \<Rightarrow> bad_payload s)
     else if cmd = SEN55_SET_VOC_TUNING then
       (case val of
          Xox n \<Rightarrow> filled (run_steps (xox_steps SEN55_VOC_TUNING n)) s
        | _ \<Rightarrow> bad_payload s)
     else if cmd = SEN55_SET_TEMP_COMP then
       (case val of
          TmpComp t \<Rightarrow> filled (run_steps
            [put (shr_byte 8 SEN55_TEMP_COMP), put (shr_byte 0 SEN55_TEMP_COMP),
             put (shr_byte 8 (offset t)), put (shr_byte 0 (offset t)), put_crc 2,
             put (shr_byte 8 (slope t)), put (shr_byte 0 (slope t)), put_crc 5,
             put (shr_byte 8 (time t)), put (shr_byte 0 (time t)), put_crc 8]) s
        | _ \<Rightarrow> bad_payload s)
     else if cmd = SEN55_SET_WARM_START_PARAM then
       filled (run_steps
         [put (shr_byte 8 SEN55_WARM_START_PARAM), put (shr_byte 0 SEN55_WARM_START_PARAM),
          put (shr_byte 8 (data16 s)), put (shr_byte 0 (data16 s)), put_crc 2]) s
     else if cmd = SEN55_SET_RHT_ACCEL then
       filled (run_steps
         [put (shr_byte 8 SEN55_RHT_ACCEL), put (shr_byte 0 SEN55_RHT_ACCEL),
          put (shr_byte 8 (data16 s)), put (shr_byte 0 (data16 s)), put_crc 2]) s
     else
       filled (run_steps [put (shr_byte 8 cmd), put (shr_byte 0 cmd)]) s)"

section \<open>Bus transactions\<close>

text \<open>
  \<open>I2C_SetPointer\<close>: refuses an empty send buffer, otherwise writes the frame. The result
  of \<open>endTransmission\<close> is not looked at, so a non-empty frame always gives
  \<open>SEN55_ERR_OK\<close>. (Debug printing is left out throughout.)
\<close>

definition I2C_SetPointer :: "SEN55 \<Rightarrow> u8 \<times> SEN55" where
  "I2C_SetPointer s =
     (if Send_BUF_Length s = 0 then (SEN55_ERR_DATALENGTH, s)
      else (SEN55_ERR_OK, emit (Transmit (take (Send_BUF_Length s) (Send_BUF s))) s))"

text \<open>
  \<open>requestFrom(address, quantity)\<close> of the port: the port reads at most \<open>quantity\<close>
  bytes, replaces its receive buffer by them and returns how many it read.
\<close>

definition requestFrom :: "nat \<Rightarrow> SEN55 \<Rightarrow> nat \<times> SEN55" where
  "requestFrom quantity s =
     (let r = take quantity (case device_out s of [] \<Rightarrow> [] | r # _ \<Rightarrow> r);
          s1 = emit (RequestFrom quantity) s
      in (length r, s1\<lparr>wire_rx := r, device_out := tl (device_out s)\<rparr>))"

text \<open>\<open>_Receive_BUF[_Receive_BUF_Length++] = b\<close>; the array has \<open>MAXBUFLENGTH\<close> elements.\<close>

definition rx_append :: "u8 \<Rightarrow> SEN55 \<Rightarrow> SEN55" where
  "rx_append b s =
     s\<lparr>Receive_BUF := (Receive_BUF s)[Receive_BUF_Length s := b],
       Receive_BUF_Length := Receive_BUF_Length s + 1,
       ub := ub s \<or> MAXBUFLENGTH \<le> Receive_BUF_Length s\<rparr>"

text \<open>
  The \<open>while (_i2cPort->available())\<close> loop of \<open>I2C_ReadToBuffer\<close>, one byte for each
  turn. Its arguments are the bytes still pending in the port, the local array
  \<open>data[3]\<close> and the local index \<open>i\<close>. It ends with \<open>Some ret\<close> where the source returns
  from inside the loop, and with \<open>None\<close> where the loop ends (no byte left, or \<open>break\<close>).
  The pending bytes it leaves are returned too.
\<close>

fun rd_loop :: "nat \<Rightarrow> bool \<Rightarrow> u8 list \<Rightarrow> u8 list \<Rightarrow> nat \<Rightarrow> SEN55
    \<Rightarrow> u8 option \<times> u8 list \<times> u8 list \<times> nat \<times> SEN55" where
  "rd_loop count chk_zero [] data i s = (None, [], data, i, s)"
| "rd_loop count chk_zero (b # avail) data i s =
     (let data1 = data[i := b]; i1 = i + 1 in
      if i1 = 3 then
        if data1 ! 2 \<noteq> I2C_calc_CRC data1 then (Some SEN55_ERR_PROTOCOL, avail, data1, i1, s)
        else
          (let s1 = rx_append (data1 ! 1) (rx_append (data1 ! 0) s) in
           if chk_zero \<and> data1 ! 0 = 0 \<and> data1 ! 1 = 0 then (Some SEN55_ERR_OK, [], data1, 0, s1)
           else if count \<le> Receive_BUF_Length s1 then (None, avail, data1, 0, s1)
           else rd_loop count chk_zero avail data1 0 s1)
      else rd_loop count chk_zero avail data1 i1 s)"

text \<open>
  \<open>I2C_ReadToBuffer(count, chk_zero)\<close>. The local \<open>exp_cnt\<close> is a \<open>uint8_t\<close>:
  \<open>count / 2 * 3\<close> is reduced modulo 256, and capped at 32 on builds with
  \<open>MAX_32_TO_EXPECT\<close>. So at most 255 bytes arrive, at most 170 are stored, and the
  \<open>uint8_t\<close> counters never wrap.
\<close>

definition exp_cnt :: "u8 \<Rightarrow> SEN55 \<Rightarrow> nat" where
  "exp_cnt count s =
     (let e = (unat count div 2 * 3) mod 256
      in if max_32_to_expect s \<and> 32 < e then 32 else e)"

definition I2C_ReadToBuffer :: "u8 \<Rightarrow> bool \<Rightarrow> SEN55 \<Rightarrow> u8 \<times> SEN55" where
  "I2C_ReadToBuffer count chk_zero s =
     (let s0 = s\<lparr>Receive_BUF_Length := 0\<rparr>;
          (rec_cnt, s1) = requestFrom (exp_cnt count s0) s0
      in if rec_cnt \<noteq> exp_cnt count s0 then (SEN55_ERR_PROTOCOL, s1)
         else
           (case rd_loop (unat count) chk_zero (wire_rx s1) (replicate 3 0) 0 s1 of
              (Some ret, avail, data, i, s2) \<Rightarrow> (ret, s2\<lparr>wire_rx := avail\<rparr>)
            | (None, avail, data, i, s2) \<Rightarrow>
                (let s3 = foldl (\<lambda>st j. rx_append (data ! j) st) (s2\<lparr>wire_rx := avail\<rparr>) [0..<i]
                 in if Receive_BUF_Length s3 = 0 then (SEN55_ERR_PROTOCOL, s3)
                    else if Receive_BUF_Length s3 = unat count then (SEN55_ERR_OK, s3)
                    else (SEN55_ERR_DATALENGTH, s3))))"

definition I2C_SetPointer_Read :: "u8 \<Rightarrow> bool \<Rightarrow> SEN55 \<Rightarrow> u8 \<times> SEN55" where
  "I2C_SetPointer_Read cnt chk_zero s =
     (let (ret, s1) = I2C_SetPointer s
      in if ret \<noteq> SEN55_ERR_OK then (ret, s1)
         else I2C_ReadToBuffer cnt chk_zero (emit (Delay 5) s1))"

section \<open>Conversions of received bytes\<close>

text \<open>
  \<open>byte_to_U32\<close> copies four bytes of \<open>_Receive_BUF\<close> in reverse order into a union and
  reads the union's \<open>uint32_t\<close>: on the little-endian boards the library runs on, the
  big-endian value of the four bytes.
\<close>

definition byte_to_U32 :: "SEN55 \<Rightarrow> nat \<Rightarrow> u32" where
  "byte_to_U32 s x =
     push_bit 24 (ucast (Receive_BUF s ! x)) OR push_bit 16 (ucast (Receive_BUF s ! (x + 1)))
     OR push_bit 8 (ucast (Receive_BUF s ! (x + 2))) OR ucast (Receive_BUF s ! (x + 3))"

definition byte_to_Uint16_t :: "SEN55 \<Rightarrow> nat \<Rightarrow> u16" where
  "byte_to_Uint16_t s x =
     push_bit 8 (ucast (Receive_BUF s ! x)) OR ucast (Receive_BUF s ! (x + 1))"

definition byte_to_int16_t :: "SEN55 \<Rightarrow> nat \<Rightarrow> s16" where
  "byte_to_int16_t s x =
     push_bit 8 (ucast (Receive_BUF s ! x)) OR ucast (Receive_BUF s ! (x + 1))"

section \<open>Operations\<close>

text \<open>
  Out-parameters: a method that stores through a pointer returns the stored value. Where
  the method stores on some paths only, the model takes the value the caller's variable
  held before and returns it on the other paths.
\<close>

definition Instruct :: "u16 \<Rightarrow> SEN55 \<Rightarrow> bool \<times> SEN55" where
  "Instruct type s =
     (if type = SEN55_START_FAN_CLEANING \<and> \<not> started s then (False, s)
      else
        (let (ret, s1) = I2C_SetPointer (I2C_fill_buffer type NoVal s)
         in if ret = SEN55_ERR_OK then
              (if type = SEN55_START_MEASUREMENT \<or> type = SEN55_START_RHTG_MEASUREMENT then
                 (True, emit (Delay 1000) (s1\<lparr>started := True\<rparr>))
               else if type = SEN55_STOP_MEASUREMENT then (True, s1\<lparr>started := False\<rparr>)
               else if type = SEN55_RESET then
                 (True, emit (Delay 500) (emit PortBegin (emit (Delay 500) (s1\<lparr>started := False\<rparr>))))
               else (True, s1))
            else (False, s1)))"

definition reset :: "SEN55 \<Rightarrow> bool \<times> SEN55" where
  "reset = Instruct SEN55_RESET"

definition start :: "SEN55 \<Rightarrow> bool \<times> SEN55" where
  "start = Instruct SEN55_START_MEASUREMENT"

definition startRHTG :: "SEN55 \<Rightarrow> bool \<times> SEN55" where
  "startRHTG = Instruct SEN55_START_RHTG_MEASUREMENT"

definition stop :: "SEN55 \<Rightarrow> bool \<times> SEN55" where
  "stop = Instruct SEN55_STOP_MEASUREMENT"

definition clean :: "SEN55 \<Rightarrow> bool \<times> SEN55" where
  "clean = Instruct SEN55_START_FAN_CLEANING"

definition zero_version :: sen_version where
  "zero_version = \<lparr>F_major = 0, F_minor = 0, F_debug = False, H_major = 0, H_minor = 0,
     P_major = 0, P_minor = 0, L_major = 0, L_minor = 0\<rparr>"

definition GetVersion :: "SEN55 \<Rightarrow> u8 \<times> sen_version \<times> SEN55" where
  "GetVersion s =
     (let (ret, s1) = I2C_SetPointer_Read 8 False (I2C_fill_buffer SEN55_READ_VERSION NoVal s)
      in if ret = SEN55_ERR_OK then
           (let v = \<lparr>F_major = Receive_BUF s1 ! 0, F_minor = Receive_BUF s1 ! 1,
                     F_debug = (Receive_BUF s1 ! 2 \<noteq> 0), H_major = Receive_BUF s1 ! 3,
                     H_minor = Receive_BUF s1 ! 4, P_major = Receive_BUF s1 ! 5,
                     P_minor = Receive_BUF s1 ! 6, L_major = DRIVER_MAJOR, L_minor = DRIVER_MINOR\<rparr>
            in (ret, v, s1\<lparr>FW_Major := F_major v, FW_Minor := F_minor v\<rparr>))
         else (ret, zero_version, s1))"

definition probe :: "SEN55 \<Rightarrow> bool \<times> SEN55" where
  "probe s = (let (ret, v, s1) = GetVersion s in (ret = SEN55_ERR_OK, s1))"

definition FWCheck :: "u8 \<Rightarrow> u8 \<Rightarrow> SEN55 \<Rightarrow> bool \<times> SEN55" where
  "FWCheck major minor s =
     (let (ok, s1) = (if FW_Major s = 0 then probe s else (True, s))
      in if \<not> ok then (False, s1)
         else if FW_Major s1 < major \<or> FW_Minor s1 < minor then (False, s1)
         else (True, s1))"

text \<open>
  \<open>GetStatusReg(&status)\<close>: the status starts as \<open>STATUS_OK_55\<close>; the clear command is
  sent after the read whatever the read returned.
\<close>

definition GetStatusReg :: "SEN55 \<Rightarrow> u8 \<times> u8 \<times> SEN55" where
  "GetStatusReg s =
     (let (fw, s1) = FWCheck 2 0 s
      in if \<not> fw then (SEN55_ERR_FIRMWARE, STATUS_OK_55, s1)
         else
           (let (ret, s2) = I2C_SetPointer_Read 4 False
                              (I2C_fill_buffer SEN55_READ_DEVICE_REGISTER NoVal s1);
                (ret2, s3) = I2C_SetPointer (I2C_fill_buffer SEN55_CLEAR_DEVICE_REGISTER NoVal s2)
            in if ret \<noteq> SEN55_ERR_OK then (ret, STATUS_OK_55, s3)
               else
                 (let st0 = STATUS_OK_55;
                      st1 = (if Receive_BUF s3 ! 1 AND 0x20 \<noteq> 0 then st0 OR STATUS_SPEED_ERROR_55 else st0);
                      st2 = (if Receive_BUF s3 ! 3 AND 0x80 \<noteq> 0 then st1 OR STATUS_GAS_ERROR_55 else st1);
                      st3 = (if Receive_BUF s3 ! 3 AND 0x40 \<noteq> 0 then st2 OR STATUS_RHT_ERROR_55 else st2);
                      st4 = (if Receive_BUF s3 ! 3 AND 0x20 \<noteq> 0 then st3 OR STATUS_LASER_ERROR_55 else st3);
                      st5 = (if Receive_BUF s3 ! 3 AND 0x10 \<noteq> 0 then st4 OR STATUS_FAN_ERROR_55 else st4)
                  in if st5 \<noteq> STATUS_OK_55 then (SEN55_ERR_OUTOFRANGE, st5, s3)
                     else if Receive_BUF s3 ! 1 AND 0x08 \<noteq> 0
                       then (SEN55_ERR_OK, STATUS_FAN_CLEAN_ACTIVE_55, s3)
                       else (SEN55_ERR_OK, st5, s3))))"

text \<open>
  \<open>SetAutoCleanInt(val)\<close>: stops a running measurement, sends the frame of
  \<open>SEN55_SET_AUTO_CLEANING_INTERVAL\<close> and restarts. The body never mentions \<open>val\<close>.
\<close>

definition SetAutoCleanInt :: "u32 \<Rightarrow> SEN55 \<Rightarrow> u8 \<times> SEN55" where
  "SetAutoCleanInt val s =
     (let (stopped, s1) = (if started s then stop s else (True, s))
      in if \<not> stopped then (SEN55_ERR_CMDSTATE, s1)
         else
           (let save_started = started s;
                (ret, s2) = I2C_SetPointer (I2C_fill_buffer SEN55_SET_AUTO_CLEANING_INTERVAL NoVal s1)
            in if ret = SEN55_ERR_OK then
                 (let (r, s3) = (if save_started then start s2 else (True, s2))
                  in if r then (SEN55_ERR_OK, s3) else (SEN55_ERR_PROTOCOL, s3))
               else (SEN55_ERR_PROTOCOL, s2)))"

definition GetWarmStart :: "SEN55 \<Rightarrow> u8 \<times> u16 \<times> SEN55" where
  "GetWarmStart s =
     (let (ret, s1) = I2C_SetPointer_Read 2 False (I2C_fill_buffer SEN55_WARM_START_PARAM NoVal s)
      in (ret, byte_to_Uint16_t s1 0, s1))"

definition SetWarmStart :: "u16 \<Rightarrow> SEN55 \<Rightarrow> u8 \<times> SEN55" where
  "SetWarmStart val s =
     I2C_SetPointer (I2C_fill_buffer SEN55_SET_WARM_START_PARAM NoVal (s\<lparr>data16 := val\<rparr>))"

definition GetRHTAccelMode :: "SEN55 \<Rightarrow> u8 \<times> u16 \<times> SEN55" where
  "GetRHTAccelMode s =
     (let (ret, s1) = I2C_SetPointer_Read 2 False (I2C_fill_buffer SEN55_RHT_ACCEL NoVal s)
      in (ret, byte_to_Uint16_t s1 0, s1))"

definition SetRHTAccelMode :: "u16 \<Rightarrow> SEN55 \<Rightarrow> u8 \<times> SEN55" where
  "SetRHTAccelMode val s =
     I2C_SetPointer (I2C_fill_buffer SEN55_SET_RHT_ACCEL NoVal (s\<lparr>data16 := val\<rparr>))"

definition GetAutoCleanInt :: "SEN55 \<Rightarrow> u8 \<times> u32 \<times> SEN55" where
  "GetAutoCleanInt s =
     (let (ret, s1) = I2C_SetPointer_Read 4 False
                        (I2C_fill_buffer SEN55_AUTO_CLEANING_INTERVAL NoVal s)
      in (ret, byte_to_U32 s1 0, s1))"

definition read_xox :: "SEN55 \<Rightarrow> sen_xox" where
  "read_xox s = \<lparr>IndexOffset = byte_to_int16_t s 0, LearnTimeOffsetHours = byte_to_int16_t s 2,
     LearnTimeGainHours = byte_to_int16_t s 4, GateMaxDurationMin = byte_to_int16_t s 6,
     stdInitial = byte_to_int16_t s 8, GainFactor = byte_to_int16_t s 10\<rparr>"

definition GetNoxAlgorithm :: "SEN55 \<Rightarrow> u8 \<times> sen_xox \<times> SEN55" where
  "GetNoxAlgorithm s =
     (let (ret, s1) = I2C_SetPointer_Read 12 False (I2C_fill_buffer SEN55_NOX_TUNING NoVal s)
      in (ret, read_xox s1, s1))"

definition GetVocAlgorithm :: "SEN55 \<Rightarrow> u8 \<times> sen_xox \<times> SEN55" where
  "GetVocAlgorithm s =
     (let (ret, s1) = I2C_SetPointer_Read 12 False (I2C_fill_buffer SEN55_VOC_TUNING NoVal s)
      in (ret, read_xox s1, s1))"

text \<open>
  \<open>SetVocAlgorithmState(table, tablesize)\<close>: \<open>tablesize\<close> is what the caller declares;
  the frame is built from the first \<open>VOC_ALO_SIZE\<close> bytes of the table.
\<close>

definition SetVocAlgorithmState :: "u8 list \<Rightarrow> u8 \<Rightarrow> SEN55 \<Rightarrow> u8 \<times> SEN55" where
  "SetVocAlgorithmState table tablesize s =
     (if unat tablesize < VOC_ALO_SIZE then (SEN55_ERR_PARAMETER, s)
      else I2C_SetPointer (I2C_fill_buffer SEN55_SET_VOC_ALGO (Table table) s))"

text \<open>
  \<open>GetTmpComp\<close> divides the signed words by the scale in \<open>int\<close> arithmetic (C division
  truncates towards zero) and stores the quotient in the \<open>int16_t\<close> field.
  \<open>SetTmpComp\<close> multiplies the fields in place and keeps the low 16 bits.
\<close>

definition GetTmpComp :: "SEN55 \<Rightarrow> u8 \<times> sen_tmp_comp \<times> SEN55" where
  "GetTmpComp s =
     (let (ret, s1) = I2C_SetPointer_Read 6 False (I2C_fill_buffer SEN55_TEMP_COMP NoVal s)
      in (ret,
          \<lparr>offset = word_of_int (sint (byte_to_int16_t s1 0) sdiv 200),
           slope = word_of_int (sint (byte_to_int16_t s1 2) sdiv 1000),
           time = byte_to_Uint16_t s1 4\<rparr>,
          s1))"

definition SetTmpComp :: "sen_tmp_comp \<Rightarrow> SEN55 \<Rightarrow> u8 \<times> sen_tmp_comp \<times> SEN55" where
  "SetTmpComp tmp s =
     (let tmp1 = tmp\<lparr>offset := word_of_int (sint (offset tmp) * 200),
                     slope := word_of_int (sint (slope tmp) * 1000)\<rparr>;
          (ret, s1) = I2C_SetPointer (I2C_fill_buffer SEN55_SET_TEMP_COMP (TmpComp tmp1) s)
      in (ret, tmp1, s1))"

definition zero_values :: sen_values where
  "zero_values = \<lparr>MassPM1 = 0, MassPM2 = 0, MassPM4 = 0, MassPM10 = 0, Hum = 0, Temp = 0,
     VOC = 0, NOX = 0\<rparr>"

text \<open>
  \<open>GetValues(v, laser)\<close>: when no measurement is running it starts one (with or without
  laser) and waits 100 ms more; a failed start returns \<open>SEN55_ERR_CMDSTATE\<close> without a
  read. \<open>v\<close> is written only after a successful read.
\<close>

definition GetValues :: "(real \<Rightarrow> real) \<Rightarrow> sen_values \<Rightarrow> bool \<Rightarrow> SEN55 \<Rightarrow> u8 \<times> sen_values \<times> SEN55" where
  "GetValues rnd v0 laser s =
     (let (ok, s1) = (if \<not> started s then
                        (let (r, s') = (if laser then start s else startRHTG s)
                         in if r then (True, emit (Delay 100) s') else (False, s'))
                      else (True, s))
      in if \<not> ok then (SEN55_ERR_CMDSTATE, v0, s1)
         else
           (let (ret, s2) = I2C_SetPointer_Read 16 False
                              (I2C_fill_buffer SEN55_READ_MEASURED_VALUE NoVal s1)
            in if ret \<noteq> SEN55_ERR_OK then (ret, v0, s2)
               else
                 (let v1 = (if laser then
                              zero_values\<lparr>MassPM1 := rnd (real (unat (byte_to_Uint16_t s2 0)) / 10),
                                MassPM2 := rnd (real (unat (byte_to_Uint16_t s2 2)) / 10),
                                MassPM4 := rnd (real (unat (byte_to_Uint16_t s2 4)) / 10),
                                MassPM10 := rnd (real (unat (byte_to_Uint16_t s2 6)) / 10)\<rparr>
                            else zero_values)
                  in (SEN55_ERR_OK,
                      v1\<lparr>Hum := rnd (real_of_int (sint (byte_to_int16_t s2 8)) / 100),
                         Temp := rnd (real_of_int (sint (byte_to_int16_t s2 10)) / 200),
                         VOC := rnd (real_of_int (sint (byte_to_int16_t s2 12)) / 10),
                         NOX := rnd (real_of_int (sint (byte_to_int16_t s2 14)) / 10)\<rparr>,
                      s2))))"

definition GetValuesPM :: "(real \<Rightarrow> real) \<Rightarrow> sen_values_pm \<Rightarrow> SEN55 \<Rightarrow> u8 \<times> sen_values_pm \<times> SEN55" where
  "GetValuesPM rnd v0 s =
     (let (ok, s1) = (if \<not> started s then start s else (True, s))
      in if \<not> ok then (SEN55_ERR_CMDSTATE, v0, s1)
         else
           (let (ret, s2) = I2C_SetPointer_Read 20 False
                              (I2C_fill_buffer SEN55_READ_MEASURED_VALUE_PM NoVal s1)
            in if ret \<noteq> SEN55_ERR_OK then (ret, v0, s2)
               else
                 (SEN55_ERR_OK,
                  \<lparr>pm_MassPM1 = rnd (real (unat (byte_to_Uint16_t s2 0)) / 10),
                   pm_MassPM2 = rnd (real (unat (byte_to_Uint16_t s2 2)) / 10),
                   pm_MassPM4 = rnd (real (unat (byte_to_Uint16_t s2 4)) / 10),
                   pm_MassPM10 = rnd (real (unat (byte_to_Uint16_t s2 6)) / 10),
                   pm_NumPM0 = rnd (real (unat (byte_to_Uint16_t s2 8)) / 10),
                   pm_NumPM1 = rnd (real (unat (byte_to_Uint16_t s2 10)) / 10),
                   pm_NumPM2 = rnd (real (unat (byte_to_Uint16_t s2 12)) / 10),
                   pm_NumPM4 = rnd (real (unat (byte_to_Uint16_t s2 14)) / 10),
                   pm_NumPM10 = rnd (real (unat (byte_to_Uint16_t s2 16)) / 10),
                   pm_PartSize = rnd (real (unat (byte_to_Uint16_t s2 18)) / 1000)\<rparr>,
                  s2)))"

section \<open>Responses on the wire\<close>

text \<open>
  To state what the decoder does with a response: a word is a pair of its high and its
  low byte; \<open>group\<close> is its form on the wire, \<open>words_bytes\<close> the bytes of a list of
  words without checksums, and \<open>store_words\<close> the effect of appending them to
  \<open>_Receive_BUF\<close> in order.
\<close>

definition group :: "u8 \<times> u8 \<Rightarrow> u8 list" where
  "group w = [fst w, snd w, I2C_calc_CRC [fst w, snd w]]"

definition words_bytes :: "(u8 \<times> u8) list \<Rightarrow> u8 list" where
  "words_bytes ws = concat (map (\<lambda>w. [fst w, snd w]) ws)"

definition store_words :: "(u8 \<times> u8) list \<Rightarrow> SEN55 \<Rightarrow> SEN55" where
  "store_words ws s = foldl (\<lambda>st w. rx_append (snd w) (rx_append (fst w) st)) s ws"

text \<open>
  \<open>word16 h l\<close> is the 16-bit word with high byte \<open>h\<close> and low byte \<open>l\<close>; \<open>wire w\<close> is
  the group that carries the word \<open>w\<close>; \<open>trunc_to k w\<close> is the signed word \<open>w\<close> divided
  by \<open>k\<close>, truncating towards zero, and multiplied by \<open>k\<close> again.
\<close>

definition word16 :: "u8 \<Rightarrow> u8 \<Rightarrow> u16" where
  "word16 h l = push_bit 8 (ucast h) OR ucast l"

definition wire :: "u16 \<Rightarrow> u8 list" where
  "wire w = group (shr_byte 8 w, shr_byte 0 w)"

definition trunc_to :: "int \<Rightarrow> s16 \<Rightarrow> s16" where
  "trunc_to k w = word_of_int (sint w sdiv k * k)"

section \<open>Auxiliary facts\<close>

lemma crc_two_bytes: "I2C_calc_CRC (a # b # c # rest) = I2C_calc_CRC [a, b]"
  by (simp add: I2C_calc_CRC_def numeral_2_eq_2)

lemma crc_00: "I2C_calc_CRC [0, 0] = 0x81"
  by code_simp

lemma buf0_unfold:
  "replicate MAXBUFLENGTH x =
     [x,x,x,x,x,x,x,x,x,x, x,x,x,x,x,x,x,x,x,x, x,x,x,x,x,x,x,x,x,x,
      x,x,x,x,x,x,x,x,x,x, x,x,x,x,x,x,x,x,x,x]"
  by (simp add: eval_nat_numeral)

lemma list_update_Cons_numeral: "(x # xs)[numeral n := v] = x # xs[pred_numeral n := v]"
  by (simp add: numeral_eq_Suc)

lemma and_ff_u8: "(v :: u8) AND 0xff = v"
proof -
  have "(0xff :: u8) = - 1" by simp
  then show ?thesis by (simp only: and.right_neutral bit.conj_one_right)
qed

lemmas fill_simps = run_steps_def put_def put_crc_def filled_def crc_two_bytes buf0_unfold
  list_update_Cons_numeral

subsection \<open>The decoding loop\<close>

lemma rx_append_simps:
  "Receive_BUF_Length (rx_append b s) = Receive_BUF_Length s + 1"
  "Receive_BUF (rx_append b s) = (Receive_BUF s)[Receive_BUF_Length s := b]"
  "wire_rx (rx_append b s) = wire_rx s"
  "trace (rx_append b s) = trace s"
  "started (rx_append b s) = started s"
  "device_out (rx_append b s) = device_out s"
  "max_32_to_expect (rx_append b s) = max_32_to_expect s"
  by (simp_all add: rx_append_def)

lemma rd_loop_group:
  assumes "length data = 3"
  shows "rd_loop count chk (h # l # c # rest) data 0 s =
     (if c \<noteq> I2C_calc_CRC [h, l] then (Some SEN55_ERR_PROTOCOL, rest, [h, l, c], 3, s)
      else if chk \<and> h = 0 \<and> l = 0
        then (Some SEN55_ERR_OK, [], [h, l, c], 0, rx_append l (rx_append h s))
      else if count \<le> Receive_BUF_Length s + 2
        then (None, rest, [h, l, c], 0, rx_append l (rx_append h s))
      else rd_loop count chk rest [h, l, c] 0 (rx_append l (rx_append h s)))"
proof -
  from assms obtain x y z where d: "data = [x, y, z]"
    by (cases data; cases "tl data"; cases "tl (tl data)") auto
  show ?thesis
    by (simp add: d Let_def rx_append_simps crc_two_bytes)
qed

lemma store_words_Nil: "store_words [] s = s"
  by (simp add: store_words_def)

lemma store_words_Cons:
  "store_words (w # ws) s = store_words ws (rx_append (snd w) (rx_append (fst w) s))"
  by (simp add: store_words_def)

lemma store_words_length:
  "Receive_BUF_Length (store_words ws s) = Receive_BUF_Length s + 2 * length ws"
  by (induction ws arbitrary: s) (simp_all add: store_words_Nil store_words_Cons rx_append_simps)

lemma store_words_frame:
  "wire_rx (store_words ws s) = wire_rx s \<and> trace (store_words ws s) = trace s \<and>
   started (store_words ws s) = started s \<and> device_out (store_words ws s) = device_out s"
  by (induction ws arbitrary: s) (simp_all add: store_words_Nil store_words_Cons rx_append_simps)

lemma store_words_buf:
  "Receive_BUF_Length s + 2 * length ws \<le> length (Receive_BUF s) \<Longrightarrow>
   length (Receive_BUF (store_words ws s)) = length (Receive_BUF s) \<and>
   take (Receive_BUF_Length s + 2 * length ws) (Receive_BUF (store_words ws s)) =
     take (Receive_BUF_Length s) (Receive_BUF s) @ words_bytes ws"
proof (induction ws arbitrary: s)
  case Nil
  then show ?case by (simp add: store_words_Nil words_bytes_def)
next
  case (Cons w ws)
  let ?s1 = "rx_append (snd w) (rx_append (fst w) s)"
  let ?n = "Receive_BUF_Length s"
  have n: "?n + 1 < length (Receive_BUF s)" using Cons.prems by simp
  have l1: "Receive_BUF_Length ?s1 = ?n + 2" by (simp add: rx_append_simps)
  have b1: "Receive_BUF ?s1 = (Receive_BUF s)[?n := fst w, ?n + 1 := snd w]"
    by (simp add: rx_append_simps)
  have len1: "length (Receive_BUF ?s1) = length (Receive_BUF s)" by (simp add: b1)
  have pre: "Receive_BUF_Length ?s1 + 2 * length ws \<le> length (Receive_BUF ?s1)"
    using Cons.prems by (simp add: l1 len1)
  have t1: "take (?n + 2) (Receive_BUF ?s1) = take ?n (Receive_BUF s) @ [fst w, snd w]"
    using n by (simp add: b1 take_Suc_conv_app_nth numeral_2_eq_2)
  have idx: "?n + 2 * length (w # ws) = Receive_BUF_Length ?s1 + 2 * length ws"
    by (simp add: l1)
  have wb: "words_bytes (w # ws) = [fst w, snd w] @ words_bytes ws"
    by (simp add: words_bytes_def)
  from Cons.IH [OF pre]
  have ih: "length (Receive_BUF (store_words ws ?s1)) = length (Receive_BUF ?s1)"
    "take (Receive_BUF_Length ?s1 + 2 * length ws) (Receive_BUF (store_words ws ?s1)) =
       take (Receive_BUF_Length ?s1) (Receive_BUF ?s1) @ words_bytes ws"
    by blast+
  have "take (?n + 2 * length (w # ws)) (Receive_BUF (store_words (w # ws) s)) =
      take (Receive_BUF_Length ?s1 + 2 * length ws) (Receive_BUF (store_words ws ?s1))"
    by (simp only: idx store_words_Cons)
  also have "\<dots> = take (Receive_BUF_Length ?s1) (Receive_BUF ?s1) @ words_bytes ws"
    by (rule ih(2))
  also have "\<dots> = take (?n + 2) (Receive_BUF ?s1) @ words_bytes ws"
    by (simp only: l1)
  also have "\<dots> = take ?n (Receive_BUF s) @ words_bytes (w # ws)"
    unfolding t1 wb by simp
  finally show ?case
    by (simp add: store_words_Cons ih(1) len1)
qed

lemma rd_loop_good:
  assumes "length data = 3"
    and "chk \<longrightarrow> (\<forall>w\<in>set ws. w \<noteq> (0, 0))"
    and "Receive_BUF_Length s + 2 * length ws < count"
  shows "\<exists>data'. length data' = 3 \<and>
     rd_loop count chk (concat (map group ws) @ rest) data 0 s =
     rd_loop count chk rest data' 0 (store_words ws s)"
  using assms
proof (induction ws arbitrary: data s)
  case Nil
  then show ?case by (auto simp add: store_words_Nil)
next
  case (Cons w ws)
  let ?s1 = "rx_append (snd w) (rx_append (fst w) s)"
  have nz: "\<not> (chk \<and> fst w = 0 \<and> snd w = 0)"
    using Cons.prems(2) by (cases w) auto
  have step: "rd_loop count chk (concat (map group (w # ws)) @ rest) data 0 s =
      rd_loop count chk (concat (map group ws) @ rest) (group w) 0 ?s1"
    using Cons.prems(1,3) nz by (auto simp add: group_def rd_loop_group simp del: rd_loop.simps)
  have "\<exists>data'. length data' = 3 \<and>
     rd_loop count chk (concat (map group ws) @ rest) (group w) 0 ?s1 =
     rd_loop count chk rest data' 0 (store_words ws ?s1)"
    using Cons.prems by (intro Cons.IH) (simp_all add: group_def rx_append_simps)
  then show ?case by (simp only: step store_words_Cons)
qed

lemma rd_loop_ret:
  "rd_loop count chk avail data i s = (Some r, rest) \<Longrightarrow> r = SEN55_ERR_PROTOCOL \<or> r = SEN55_ERR_OK"
  by (induction count chk avail data i s rule: rd_loop.induct)
     (auto simp add: Let_def split: if_splits)

lemma exp_cnt_reset: "exp_cnt count (s\<lparr>Receive_BUF_Length := n\<rparr>) = exp_cnt count s"
  by (simp add: exp_cnt_def)

lemma exp_cnt_le: "exp_cnt count s \<le> unat count div 2 * 3"
proof -
  have "(unat count div 2 * 3) mod 256 \<le> unat count div 2 * 3" by (rule mod_less_eq_dividend)
  then show ?thesis by (auto simp add: exp_cnt_def Let_def)
qed

lemma requestFrom_fst_reset:
  "fst (requestFrom n (s\<lparr>Receive_BUF_Length := k\<rparr>)) = fst (requestFrom n s)"
  by (simp add: requestFrom_def Let_def emit_def)

lemma requestFrom_exact:
  assumes "device_out s = r # dev" and "length r = n"
  shows "requestFrom n s = (n, (emit (RequestFrom n) s)\<lparr>wire_rx := r, device_out := dev\<rparr>)"
  using assms by (simp add: requestFrom_def Let_def)

lemma store_words_append:
  "store_words (ws @ [w]) s = rx_append (snd w) (rx_append (fst w) (store_words ws s))"
  by (simp add: store_words_def)

lemma ReadToBuffer_bad_group:
  assumes dev: "device_out s = (concat (map group ws) @ [h, l, c] @ tail_bytes) # dev"
    and len: "3 * length ws + 3 + length tail_bytes = exp_cnt count s"
    and bad: "c \<noteq> I2C_calc_CRC [h, l]"
    and nz: "chk_zero \<longrightarrow> (\<forall>w\<in>set ws. w \<noteq> (0, 0))"
  shows "I2C_ReadToBuffer count chk_zero s =
     (SEN55_ERR_PROTOCOL,
      (store_words ws ((emit (RequestFrom (exp_cnt count s)) (s\<lparr>Receive_BUF_Length := 0\<rparr>))
         \<lparr>wire_rx := concat (map group ws) @ [h, l, c] @ tail_bytes, device_out := dev\<rparr>))
       \<lparr>wire_rx := tail_bytes\<rparr>)"
proof -
  let ?s0 = "s\<lparr>Receive_BUF_Length := 0\<rparr>"
  let ?r = "concat (map group ws) @ [h, l, c] @ tail_bytes"
  let ?s1 = "(emit (RequestFrom (exp_cnt count s)) ?s0)\<lparr>wire_rx := ?r, device_out := dev\<rparr>"
  have lr: "length ?r = exp_cnt count s"
    using len by (simp add: length_concat comp_def group_def sum_list_triv)
  have rq: "requestFrom (exp_cnt count ?s0) ?s0 = (exp_cnt count ?s0, ?s1)"
    using requestFrom_exact [of ?s0 ?r dev "exp_cnt count ?s0"] dev lr
    by (simp add: exp_cnt_reset)
  have cnt: "Receive_BUF_Length ?s1 + 2 * length ws < unat count"
    using len exp_cnt_le [of count s] by (simp add: emit_def)
  from rd_loop_good [of "replicate 3 0" chk_zero ws ?s1 "unat count" "[h, l, c] @ tail_bytes"] nz cnt
  obtain data' where d: "length data' = 3"
    and lp: "rd_loop (unat count) chk_zero ?r (replicate 3 0) 0 ?s1 =
             rd_loop (unat count) chk_zero ([h, l, c] @ tail_bytes) data' 0 (store_words ws ?s1)"
    by auto
  have "rd_loop (unat count) chk_zero ([h, l, c] @ tail_bytes) data' 0 (store_words ws ?s1) =
      (Some SEN55_ERR_PROTOCOL, tail_bytes, [h, l, c], 3, store_words ws ?s1)"
    using bad d by (simp add: rd_loop_group del: rd_loop.simps)
  with lp have "rd_loop (unat count) chk_zero ?r (replicate 3 0) 0 ?s1 =
      (Some SEN55_ERR_PROTOCOL, tail_bytes, [h, l, c], 3, store_words ws ?s1)"
    by (rule trans)
  then show ?thesis
    by (simp add: I2C_ReadToBuffer_def rq Let_def del: rd_loop.simps)
qed

lemma ReadToBuffer_zero_word:
  assumes dev: "device_out s = (concat (map group ws) @ group (0, 0) @ tail_bytes) # dev"
    and len: "3 * length ws + 3 + length tail_bytes = exp_cnt count s"
    and nz: "\<forall>w\<in>set ws. w \<noteq> (0, 0)"
  shows "I2C_ReadToBuffer count True s =
     (SEN55_ERR_OK,
      (store_words (ws @ [(0, 0)])
         ((emit (RequestFrom (exp_cnt count s)) (s\<lparr>Receive_BUF_Length := 0\<rparr>))
         \<lparr>wire_rx := concat (map group ws) @ group (0, 0) @ tail_bytes, device_out := dev\<rparr>))
       \<lparr>wire_rx := []\<rparr>)"
proof -
  let ?s0 = "s\<lparr>Receive_BUF_Length := 0\<rparr>"
  let ?r = "concat (map group ws) @ group (0, 0) @ tail_bytes"
  let ?s1 = "(emit (RequestFrom (exp_cnt count s)) ?s0)\<lparr>wire_rx := ?r, device_out := dev\<rparr>"
  have lr: "length ?r = exp_cnt count s"
    using len by (simp add: length_concat comp_def group_def sum_list_triv)
  have rq: "requestFrom (exp_cnt count ?s0) ?s0 = (exp_cnt count ?s0, ?s1)"
    using requestFrom_exact [of ?s0 ?r dev "exp_cnt count ?s0"] dev lr
    by (simp add: exp_cnt_reset)
  have cnt: "Receive_BUF_Length ?s1 + 2 * length ws < unat count"
    using len exp_cnt_le [of count s] by (simp add: emit_def)
  from rd_loop_good [of "replicate 3 0" True ws ?s1 "unat count" "group (0, 0) @ tail_bytes"] nz cnt
  obtain data' where d: "length data' = 3"
    and lp: "rd_loop (unat count) True ?r (replicate 3 0) 0 ?s1 =
             rd_loop (unat count) True (group (0, 0) @ tail_bytes) data' 0 (store_words ws ?s1)"
    by auto
  have "rd_loop (unat count) True (group (0, 0) @ tail_bytes) data' 0 (store_words ws ?s1) =
      (Some SEN55_ERR_OK, [], group (0, 0), 0, store_words (ws @ [(0, 0)]) ?s1)"
    using d by (simp add: group_def rd_loop_group store_words_append del: rd_loop.simps)
  with lp have "rd_loop (unat count) True ?r (replicate 3 0) 0 ?s1 =
      (Some SEN55_ERR_OK, [], group (0, 0), 0, store_words (ws @ [(0, 0)]) ?s1)"
    by (rule trans)
  then show ?thesis
    by (simp add: I2C_ReadToBuffer_def rq Let_def del: rd_loop.simps)
qed

lemma ReadToBuffer_short:
  assumes "fst (requestFrom (exp_cnt count s) s) \<noteq> exp_cnt count s"
  shows "fst (I2C_ReadToBuffer count chk s) = SEN55_ERR_PROTOCOL"
proof -
  let ?s0 = "s\<lparr>Receive_BUF_Length := 0\<rparr>"
  obtain n s1 where rq: "requestFrom (exp_cnt count ?s0) ?s0 = (n, s1)" by force
  have "fst (requestFrom (exp_cnt count ?s0) ?s0) \<noteq> exp_cnt count ?s0"
    using assms by (simp add: exp_cnt_reset requestFrom_fst_reset)
  then have "n \<noteq> exp_cnt count ?s0" by (simp add: rq)
  then show ?thesis
    by (simp add: I2C_ReadToBuffer_def Let_def rq del: rd_loop.simps)
qed

lemma ReadToBuffer_datalength:
  assumes "fst (I2C_ReadToBuffer count chk s) = SEN55_ERR_DATALENGTH"
  shows "fst (requestFrom (exp_cnt count s) s) = exp_cnt count s \<and>
         Receive_BUF_Length (snd (I2C_ReadToBuffer count chk s)) \<noteq> 0 \<and>
         Receive_BUF_Length (snd (I2C_ReadToBuffer count chk s)) \<noteq> unat count"
proof -
  have a: "fst (requestFrom (exp_cnt count s) s) = exp_cnt count s"
    using assms ReadToBuffer_short [of count s chk] by auto
  let ?s0 = "s\<lparr>Receive_BUF_Length := 0\<rparr>"
  obtain n s1 where rq: "requestFrom (exp_cnt count ?s0) ?s0 = (n, s1)" by force
  have n: "n = exp_cnt count ?s0"
    using a rq requestFrom_fst_reset [where n = "exp_cnt count s" and s = s and k = 0]
    by (simp add: exp_cnt_reset)
  obtain r avail data i s2 where
    lp: "rd_loop (unat count) chk (wire_rx s1) (replicate 3 0) 0 s1 = (r, avail, data, i, s2)"
    using prod_cases5 by blast
  show ?thesis
  proof (cases r)
    case None
    with assms rq n lp show ?thesis
      by (auto simp add: a I2C_ReadToBuffer_def Let_def split: if_splits simp del: rd_loop.simps)
  next
    case (Some ret)
    with rd_loop_ret [of "unat count" chk "wire_rx s1" "replicate 3 0" 0 s1 ret "(avail, data, i, s2)"] lp
    have "ret = SEN55_ERR_PROTOCOL \<or> ret = SEN55_ERR_OK" by simp
    with assms rq n lp Some show ?thesis
      by (auto simp add: I2C_ReadToBuffer_def Let_def simp del: rd_loop.simps)
  qed
qed

subsection \<open>Commands without payload, and what a read leaves unchanged\<close>

lemma fill_default:
  assumes "cmd \<notin> {SEN55_SET_AUTO_CLEANING_INTERVAL, SEN55_SET_VOC_ALGO, SEN55_SET_NOX_TUNING,
     SEN55_SET_TEMP_COMP, SEN55_SET_WARM_START_PARAM, SEN55_SET_RHT_ACCEL, SEN55_SET_VOC_TUNING}"
  shows "I2C_fill_buffer cmd val s =
     s\<lparr>Send_BUF := (replicate MAXBUFLENGTH 0)[0 := shr_byte 8 cmd, 1 := shr_byte 0 cmd],
       Send_BUF_Length := 2\<rparr>"
  using assms by (simp add: I2C_fill_buffer_def run_steps_def put_def filled_def)

lemma send_default:
  assumes "cmd \<notin> {SEN55_SET_AUTO_CLEANING_INTERVAL, SEN55_SET_VOC_ALGO, SEN55_SET_NOX_TUNING,
     SEN55_SET_TEMP_COMP, SEN55_SET_WARM_START_PARAM, SEN55_SET_RHT_ACCEL, SEN55_SET_VOC_TUNING}"
  shows "I2C_SetPointer (I2C_fill_buffer cmd val s) =
     (SEN55_ERR_OK,
      s\<lparr>Send_BUF := (replicate MAXBUFLENGTH 0)[0 := shr_byte 8 cmd, 1 := shr_byte 0 cmd],
        Send_BUF_Length := 2,
        trace := trace s @ [(started s, Transmit [shr_byte 8 cmd, shr_byte 0 cmd])]\<rparr>)"
  by (simp add: fill_default [OF assms] I2C_SetPointer_def emit_def buf0_unfold)

lemma Instruct_start:
  assumes "type = SEN55_START_MEASUREMENT \<or> type = SEN55_START_RHTG_MEASUREMENT"
  shows "Instruct type s =
     (True,
      s\<lparr>Send_BUF := (replicate MAXBUFLENGTH 0)[0 := shr_byte 8 type, 1 := shr_byte 0 type],
        Send_BUF_Length := 2, started := True,
        trace := trace s @ [(started s, Transmit [shr_byte 8 type, shr_byte 0 type]),
                            (True, Delay 1000)]\<rparr>)"
  using assms by (auto simp add: Instruct_def send_default emit_def)

lemma rx_append_env:
  "Send_BUF (rx_append b s) = Send_BUF s"
  "Send_BUF_Length (rx_append b s) = Send_BUF_Length s"
  "FW_Major (rx_append b s) = FW_Major s"
  "FW_Minor (rx_append b s) = FW_Minor s"
  "data32 (rx_append b s) = data32 s"
  "data16 (rx_append b s) = data16 s"
  by (simp_all add: rx_append_def)

lemma rd_loop_env:
  "rd_loop count chk avail data i s = (r, avail', data', i', s') \<Longrightarrow>
   trace s' = trace s \<and> started s' = started s \<and> device_out s' = device_out s \<and>
   max_32_to_expect s' = max_32_to_expect s \<and> FW_Major s' = FW_Major s \<and>
   FW_Minor s' = FW_Minor s"
proof (induction count chk avail data i s rule: rd_loop.induct)
  case (1 count chk_zero data i s)
  then show ?case by simp
next
  case (2 count chk_zero b avail data i s)
  then show ?case
    by (auto simp add: Let_def rx_append_simps rx_append_env split: if_splits)
qed

lemma leftover_env:
  "trace (foldl (\<lambda>st j. rx_append (d ! j) st) s js) = trace s \<and>
   started (foldl (\<lambda>st j. rx_append (d ! j) st) s js) = started s \<and>
   device_out (foldl (\<lambda>st j. rx_append (d ! j) st) s js) = device_out s \<and>
   FW_Major (foldl (\<lambda>st j. rx_append (d ! j) st) s js) = FW_Major s \<and>
   FW_Minor (foldl (\<lambda>st j. rx_append (d ! j) st) s js) = FW_Minor s"
  by (induction js arbitrary: s) (simp_all add: rx_append_simps rx_append_env)

lemma ReadToBuffer_env:
  "trace (snd (I2C_ReadToBuffer count chk s)) =
     trace s @ [(started s, RequestFrom (exp_cnt count s))] \<and>
   started (snd (I2C_ReadToBuffer count chk s)) = started s \<and>
   device_out (snd (I2C_ReadToBuffer count chk s)) = tl (device_out s) \<and>
   FW_Major (snd (I2C_ReadToBuffer count chk s)) = FW_Major s \<and>
   FW_Minor (snd (I2C_ReadToBuffer count chk s)) = FW_Minor s"
proof -
  let ?s0 = "s\<lparr>Receive_BUF_Length := 0\<rparr>"
  obtain n s1 where rq: "requestFrom (exp_cnt count ?s0) ?s0 = (n, s1)" by force
  then have s1: "trace s1 = trace s @ [(started s, RequestFrom (exp_cnt count s))]"
    "started s1 = started s" "device_out s1 = tl (device_out s)"
    "FW_Major s1 = FW_Major s" "FW_Minor s1 = FW_Minor s"
    by (auto simp add: requestFrom_def Let_def emit_def exp_cnt_reset)
  obtain r avail data i s2 where
    lp: "rd_loop (unat count) chk (wire_rx s1) (replicate 3 0) 0 s1 = (r, avail, data, i, s2)"
    using prod_cases5 by blast
  from rd_loop_env [OF lp] s1
  have s2: "trace s2 = trace s @ [(started s, RequestFrom (exp_cnt count s))]"
    "started s2 = started s" "device_out s2 = tl (device_out s)"
    "FW_Major s2 = FW_Major s" "FW_Minor s2 = FW_Minor s"
    by simp_all
  show ?thesis
    using leftover_env [of data "s2\<lparr>wire_rx := avail\<rparr>" "[0..<i]"]
    by (cases r) (simp_all add: I2C_ReadToBuffer_def rq lp Let_def s1 s2 del: rd_loop.simps)
qed

lemma SetPointer_Read_default:
  assumes "cmd \<notin> {SEN55_SET_AUTO_CLEANING_INTERVAL, SEN55_SET_VOC_ALGO, SEN55_SET_NOX_TUNING,
     SEN55_SET_TEMP_COMP, SEN55_SET_WARM_START_PARAM, SEN55_SET_RHT_ACCEL, SEN55_SET_VOC_TUNING}"
  shows "I2C_SetPointer_Read cnt chk (I2C_fill_buffer cmd val s) =
     I2C_ReadToBuffer cnt chk
      (s\<lparr>Send_BUF := (replicate MAXBUFLENGTH 0)[0 := shr_byte 8 cmd, 1 := shr_byte 0 cmd],
         Send_BUF_Length := 2,
         trace := trace s @ [(started s, Transmit [shr_byte 8 cmd, shr_byte 0 cmd]),
                             (started s, Delay 5)]\<rparr>)"
  by (simp add: I2C_SetPointer_Read_def send_default [OF assms] emit_def)

lemma GetValues_idle:
  assumes "\<not> started s"
  shows "snd (snd (GetValues rnd v0 laser s)) =
     snd (I2C_ReadToBuffer 16 False
      (s\<lparr>started := True,
         Send_BUF := (replicate MAXBUFLENGTH 0)[0 := 0x03, 1 := 0xC4], Send_BUF_Length := 2,
         trace := trace s @
           [(False, Transmit [0x00, if laser then 0x21 else 0x37]), (True, Delay 1000),
            (True, Delay 100), (True, Transmit [0x03, 0xC4]), (True, Delay 5)]\<rparr>))"
  using assms
  by (auto simp add: GetValues_def start_def startRHTG_def Instruct_start
      SetPointer_Read_default emit_def shr_byte_def Let_def split: prod.splits)

lemma GetValuesPM_idle:
  assumes "\<not> started s"
  shows "snd (snd (GetValuesPM rnd p0 s)) =
     snd (I2C_ReadToBuffer 20 False
      (s\<lparr>started := True,
         Send_BUF := (replicate MAXBUFLENGTH 0)[0 := 0x04, 1 := 0x13], Send_BUF_Length := 2,
         trace := trace s @
           [(False, Transmit [0x00, 0x21]), (True, Delay 1000),
            (True, Transmit [0x04, 0x13]), (True, Delay 5)]\<rparr>))"
  using assms
  by (auto simp add: GetValuesPM_def start_def Instruct_start
      SetPointer_Read_default emit_def shr_byte_def Let_def split: prod.splits)

subsection \<open>Complete reads, words and scaling\<close>

lemma rd_loop_all:
  assumes "length data = 3" and "ws \<noteq> []"
    and "chk \<longrightarrow> (\<forall>w\<in>set ws. w \<noteq> (0, 0))"
    and "Receive_BUF_Length s + 2 * length ws = count"
  shows "rd_loop count chk (concat (map group ws)) data 0 s =
     (None, [], group (last ws), 0, store_words ws s)"
proof -
  let ?bs = "butlast ws" and ?w = "last ws"
  have ws: "ws = ?bs @ [?w]" using assms(2) by simp
  have nz: "chk \<longrightarrow> (\<forall>w\<in>set ?bs. w \<noteq> (0, 0))"
    using assms(3) by (auto dest: in_set_butlastD)
  have nzl: "\<not> (chk \<and> fst ?w = 0 \<and> snd ?w = 0)"
    using assms(2,3) by (cases ?w) (auto dest: last_in_set)
  have lt: "Receive_BUF_Length s + 2 * length ?bs < count"
    using assms(2,4) by (cases ws) auto
  from rd_loop_good [OF assms(1) nz lt, of "group ?w"]
  obtain data' where d: "length data' = 3"
    and lp: "rd_loop count chk (concat (map group ?bs) @ group ?w) data 0 s =
             rd_loop count chk (group ?w) data' 0 (store_words ?bs s)"
    by auto
  have cat: "concat (map group ws) = concat (map group ?bs) @ group ?w"
    by (subst ws) simp
  have cnt: "count \<le> Receive_BUF_Length (store_words ?bs s) + 2"
    using assms(2,4) by (cases ws) (auto simp add: store_words_length)
  have "rd_loop count chk (group ?w) data' 0 (store_words ?bs s) =
      (None, [], group ?w, 0, store_words (?bs @ [?w]) s)"
    using d nzl cnt
    by (auto simp add: group_def rd_loop_group store_words_append simp del: rd_loop.simps)
  then show ?thesis
    using lp by (simp only: cat ws [symmetric])
qed

lemma ReadToBuffer_all_good:
  assumes dev: "device_out s = concat (map group ws) # dev"
    and ne: "ws \<noteq> []"
    and cnt: "unat count = 2 * length ws"
    and len: "3 * length ws = exp_cnt count s"
    and nz: "chk \<longrightarrow> (\<forall>w\<in>set ws. w \<noteq> (0, 0))"
  shows "I2C_ReadToBuffer count chk s =
     (SEN55_ERR_OK,
      (store_words ws ((emit (RequestFrom (exp_cnt count s)) (s\<lparr>Receive_BUF_Length := 0\<rparr>))
         \<lparr>wire_rx := concat (map group ws), device_out := dev\<rparr>))
       \<lparr>wire_rx := []\<rparr>)"
proof -
  let ?s0 = "s\<lparr>Receive_BUF_Length := 0\<rparr>"
  let ?r = "concat (map group ws)"
  let ?s1 = "(emit (RequestFrom (exp_cnt count s)) ?s0)\<lparr>wire_rx := ?r, device_out := dev\<rparr>"
  have lr: "length ?r = exp_cnt count s"
    using len by (simp add: length_concat comp_def group_def sum_list_triv)
  have rq: "requestFrom (exp_cnt count ?s0) ?s0 = (exp_cnt count ?s0, ?s1)"
    using requestFrom_exact [of ?s0 ?r dev "exp_cnt count ?s0"] dev lr
    by (simp add: exp_cnt_reset)
  have c: "Receive_BUF_Length ?s1 + 2 * length ws = unat count"
    using cnt by (simp add: emit_def)
  have lp: "rd_loop (unat count) chk ?r (replicate 3 0) 0 ?s1 =
      (None, [], group (last ws), 0, store_words ws ?s1)"
    using ne nz c by (intro rd_loop_all) simp_all
  have l: "Receive_BUF_Length (store_words ws ?s1) = unat count"
    using cnt by (simp add: store_words_length emit_def)
  have "unat count \<noteq> 0" using cnt ne by simp
  then show ?thesis
    using l by (simp add: I2C_ReadToBuffer_def rq lp Let_def del: rd_loop.simps)
qed

lemma ReadToBuffer_no_answer:
  assumes "device_out s = []" and "exp_cnt count s \<noteq> 0"
  shows "fst (I2C_ReadToBuffer count chk s) = SEN55_ERR_PROTOCOL \<and>
         Receive_BUF (snd (I2C_ReadToBuffer count chk s)) = Receive_BUF s"
  using assms
  by (auto simp add: I2C_ReadToBuffer_def requestFrom_def Let_def emit_def exp_cnt_reset
      simp del: rd_loop.simps)

lemma store_two_words:
  assumes "Receive_BUF_Length s = 0" and "4 \<le> length (Receive_BUF s)"
  shows "Receive_BUF (store_words [(a, b), (c, d)] s) ! 1 = b \<and>
         Receive_BUF (store_words [(a, b), (c, d)] s) ! 3 = d"
proof -
  have "Suc (Suc (Suc 0)) < length (Receive_BUF s)" using assms(2) by simp
  then show ?thesis
    using assms(1) by (simp add: store_words_def rx_append_simps numeral_3_eq_3)
qed

lemma status_read:
  assumes dev: "device_out s1 = (group (a, b) @ group (c, d)) # dev"
    and len: "4 \<le> length (Receive_BUF s1)"
  shows "\<exists>s2. I2C_SetPointer_Read 4 False (I2C_fill_buffer SEN55_READ_DEVICE_REGISTER NoVal s1) =
           (SEN55_ERR_OK, s2) \<and> Receive_BUF s2 ! 1 = b \<and> Receive_BUF s2 ! 3 = d"
proof -
  let ?sx = "s1\<lparr>Send_BUF := (replicate MAXBUFLENGTH 0)[0 := shr_byte 8 SEN55_READ_DEVICE_REGISTER,
         1 := shr_byte 0 SEN55_READ_DEVICE_REGISTER],
         Send_BUF_Length := 2,
         trace := trace s1 @ [(started s1, Transmit [shr_byte 8 SEN55_READ_DEVICE_REGISTER,
                                 shr_byte 0 SEN55_READ_DEVICE_REGISTER]),
                             (started s1, Delay 5)]\<rparr>"
  have e: "I2C_SetPointer_Read 4 False (I2C_fill_buffer SEN55_READ_DEVICE_REGISTER NoVal s1) =
      I2C_ReadToBuffer 4 False ?sx"
    by (rule SetPointer_Read_default) simp
  have d: "device_out ?sx = concat (map group [(a, b), (c, d)]) # dev"
    using dev by simp
  have x: "3 * length [(a, b), (c, d)] = exp_cnt 4 ?sx" by (simp add: exp_cnt_def)
  have r: "I2C_ReadToBuffer 4 False ?sx =
     (SEN55_ERR_OK,
      (store_words [(a, b), (c, d)]
        ((emit (RequestFrom (exp_cnt 4 ?sx)) (?sx\<lparr>Receive_BUF_Length := 0\<rparr>))
         \<lparr>wire_rx := concat (map group [(a, b), (c, d)]), device_out := dev\<rparr>))
       \<lparr>wire_rx := []\<rparr>)"
    by (rule ReadToBuffer_all_good [OF d _ _ x]) simp_all
  show ?thesis
    using len store_two_words [of "(emit (RequestFrom (exp_cnt 4 ?sx)) (?sx\<lparr>Receive_BUF_Length := 0\<rparr>))
         \<lparr>wire_rx := concat (map group [(a, b), (c, d)]), device_out := dev\<rparr>" a b c d]
    by (simp only: e r) (simp add: emit_def)
qed

lemma clear_after_read:
  "\<exists>s3. I2C_SetPointer (I2C_fill_buffer SEN55_CLEAR_DEVICE_REGISTER NoVal s2) =
       (SEN55_ERR_OK, s3) \<and> Receive_BUF s3 = Receive_BUF s2"
  by (simp add: send_default)

lemma SetPointer_Read_no_answer:
  assumes "cmd \<notin> {SEN55_SET_AUTO_CLEANING_INTERVAL, SEN55_SET_VOC_ALGO, SEN55_SET_NOX_TUNING,
     SEN55_SET_TEMP_COMP, SEN55_SET_WARM_START_PARAM, SEN55_SET_RHT_ACCEL, SEN55_SET_VOC_TUNING}"
    and "device_out s = []" and "2 \<le> unat cnt" and "unat cnt \<le> 20"
  shows "fst (I2C_SetPointer_Read cnt chk (I2C_fill_buffer cmd val s)) = SEN55_ERR_PROTOCOL \<and>
     Receive_BUF (snd (I2C_SetPointer_Read cnt chk (I2C_fill_buffer cmd val s))) = Receive_BUF s"
proof -
  let ?sx = "s\<lparr>Send_BUF := (replicate MAXBUFLENGTH 0)[0 := shr_byte 8 cmd, 1 := shr_byte 0 cmd],
         Send_BUF_Length := 2,
         trace := trace s @ [(started s, Transmit [shr_byte 8 cmd, shr_byte 0 cmd]),
                             (started s, Delay 5)]\<rparr>"
  have "unat cnt div 2 * 3 \<noteq> 0" "unat cnt div 2 * 3 \<le> 30" using assms(3,4) by auto
  then have e: "exp_cnt cnt ?sx \<noteq> 0" by (auto simp add: exp_cnt_def Let_def)
  have d: "device_out ?sx = []" using assms(2) by simp
  from ReadToBuffer_no_answer [OF d e, of chk] show ?thesis
    by (simp add: SetPointer_Read_default [OF assms(1)])
qed

lemma ff_mask16: "(0xff :: u16) = mask 8"
  by (simp add: mask_eq_exp_minus_1)

lemma shr_byte_hi: "shr_byte 8 (word16 h l) = h"
  unfolding shr_byte_def word16_def ff_mask16
  by (rule bit_word_eqI) (auto simp add: bit_simps dest: bit_imp_le_length)

lemma shr_byte_lo: "shr_byte 0 (word16 h l) = l"
  unfolding shr_byte_def word16_def ff_mask16
  by (rule bit_word_eqI) (auto simp add: bit_simps dest: bit_imp_le_length)

lemma wire_word16: "wire (word16 h l) = group (h, l)"
  by (simp add: wire_def shr_byte_hi shr_byte_lo)

lemma sint16_range: "- 32768 \<le> sint (w :: s16) \<and> sint w < 32768"
  using sint_ge [of w] sint_lt [of w] by simp

lemma sint_word_of_int16:
  "- 32768 \<le> k \<Longrightarrow> k < 32768 \<Longrightarrow> sint (word_of_int k :: s16) = k"
  by (simp add: sint_sbintrunc' signed_take_bit_int_eq_self)

lemma sdiv_pos_abs: "0 < k \<Longrightarrow> \<bar>a sdiv k\<bar> = \<bar>a\<bar> div k" for a k :: int
proof -
  assume k: "0 < k"
  have "0 \<le> \<bar>a\<bar> div k" using k by (simp add: pos_imp_zdiv_nonneg_iff)
  then show ?thesis
    using k by (auto simp add: signed_divide_int_def abs_mult)
qed

lemma sdiv_mult_abs_le: "0 < k \<Longrightarrow> \<bar>a sdiv k * k\<bar> \<le> \<bar>a\<bar>" for a k :: int
proof -
  assume k: "0 < k"
  have "\<bar>a sdiv k * k\<bar> = (\<bar>a\<bar> div k) * k" using k by (simp add: abs_mult sdiv_pos_abs)
  also have "\<dots> \<le> \<bar>a\<bar>"
  proof -
    have "\<bar>a\<bar> div k * k + \<bar>a\<bar> mod k = \<bar>a\<bar>" by simp
    moreover have "0 \<le> \<bar>a\<bar> mod k" using k by simp
    ultimately show ?thesis by linarith
  qed
  finally show ?thesis .
qed

lemma sdiv_mult_eq_iff: "a sdiv k * k = a \<longleftrightarrow> k dvd a" for a k :: int
proof
  assume "a sdiv k * k = a"
  then have "a = k * (a sdiv k)" by (simp add: mult.commute)
  then show "k dvd a" by (rule dvdI)
next
  assume "k dvd a"
  then obtain c where a: "a = k * c" by (rule dvdE)
  show "a sdiv k * k = a"
  proof (cases "k = 0")
    case True
    then show ?thesis by (simp add: a)
  next
    case False
    have d: "\<bar>k * c\<bar> div \<bar>k\<bar> = \<bar>c\<bar>" using False by (simp add: abs_mult)
    have "sgn (k * c) * sgn k = sgn c * (sgn k * sgn k)" by (simp add: sgn_mult)
    also have "\<dots> = sgn c" using False by simp
    finally have "a sdiv k = sgn c * \<bar>c\<bar>"
      by (simp only: a signed_divide_int_def d)
    then have "a sdiv k = c" by (simp add: sgn_mult_abs)
    then show ?thesis by (simp add: a)
  qed
qed

lemma trunc_to_sint:
  assumes "0 < k"
  shows "sint (trunc_to k w) = sint w sdiv k * k"
proof -
  let ?a = "sint w"
  have r: "- 32768 \<le> ?a" "?a < 32768" using sint16_range [of w] by simp_all
  have le: "\<bar>?a sdiv k * k\<bar> \<le> \<bar>?a\<bar>" using assms by (rule sdiv_mult_abs_le)
  have lo: "- 32768 \<le> ?a sdiv k * k" using le r by linarith
  have hi: "?a sdiv k * k < 32768"
  proof (cases "0 \<le> ?a")
    case True
    then show ?thesis using le r by linarith
  next
    case False
    then have "?a sdiv k * k \<le> 0"
      using assms by (simp add: signed_divide_int_def sgn_if mult_le_0_iff pos_imp_zdiv_nonneg_iff)
    then show ?thesis by simp
  qed
  show ?thesis unfolding trunc_to_def using lo hi by (rule sint_word_of_int16)
qed

lemma trunc_to_eq_iff:
  assumes "0 < k"
  shows "trunc_to k w = w \<longleftrightarrow> k dvd sint w"
proof -
  have "trunc_to k w = w \<longleftrightarrow> sint (trunc_to k w) = sint w"
    by (auto simp add: word_eq_iff_signed)
  also have "\<dots> \<longleftrightarrow> k dvd sint w"
    by (simp add: trunc_to_sint [OF assms] sdiv_mult_eq_iff)
  finally show ?thesis .
qed

lemma store_three_words:
  assumes "Receive_BUF_Length s = 0" and "6 \<le> length (Receive_BUF s)"
  shows "take 6 (Receive_BUF (store_words [(a, b), (c, d), (e, f)] s)) = [a, b, c, d, e, f]"
proof -
  have "Receive_BUF_Length s + 2 * length [(a, b), (c, d), (e, f)] \<le> length (Receive_BUF s)"
    using assms by simp
  from store_words_buf [OF this] show ?thesis
    using assms(1) by (simp add: words_bytes_def)
qed

lemma take6_nth:
  assumes "take 6 xs = [a, b, c, d, e, f]"
  shows "xs ! 0 = a" "xs ! 1 = b" "xs ! 2 = c" "xs ! 3 = d" "xs ! 4 = e" "xs ! 5 = f"
proof -
  have "\<And>i. i < 6 \<Longrightarrow> xs ! i = take 6 xs ! i" by simp
  then show "xs ! 0 = a" "xs ! 1 = b" "xs ! 2 = c" "xs ! 3 = d" "xs ! 4 = e" "xs ! 5 = f"
    by (simp_all add: assms)
qed

lemma GetTmpComp_ok:
  assumes dev: "device_out s = (group (oh, ol) @ group (sh, sl) @ group (thi, tlo)) # dev"
    and len: "6 \<le> length (Receive_BUF s)"
  shows "\<exists>s1. GetTmpComp s =
      (SEN55_ERR_OK,
       \<lparr>offset = word_of_int (sint (word16 oh ol) sdiv 200),
        slope = word_of_int (sint (word16 sh sl) sdiv 1000),
        time = word16 thi tlo\<rparr>, s1) \<and> started s1 = started s"
proof -
  let ?ws = "[(oh, ol), (sh, sl), (thi, tlo)]"
  let ?sx = "s\<lparr>Send_BUF := (replicate MAXBUFLENGTH 0)[0 := shr_byte 8 SEN55_TEMP_COMP,
         1 := shr_byte 0 SEN55_TEMP_COMP],
         Send_BUF_Length := 2,
         trace := trace s @ [(started s, Transmit [shr_byte 8 SEN55_TEMP_COMP,
                                 shr_byte 0 SEN55_TEMP_COMP]),
                             (started s, Delay 5)]\<rparr>"
  let ?s1 = "(emit (RequestFrom (exp_cnt 6 ?sx)) (?sx\<lparr>Receive_BUF_Length := 0\<rparr>))
         \<lparr>wire_rx := concat (map group ?ws), device_out := dev\<rparr>"
  let ?s2 = "(store_words ?ws ?s1)\<lparr>wire_rx := []\<rparr>"
  have e: "I2C_SetPointer_Read 6 False (I2C_fill_buffer SEN55_TEMP_COMP NoVal s) =
      I2C_ReadToBuffer 6 False ?sx"
    by (rule SetPointer_Read_default) simp
  have d: "device_out ?sx = concat (map group ?ws) # dev"
    using dev by simp
  have x: "3 * length ?ws = exp_cnt 6 ?sx" by (simp add: exp_cnt_def)
  have r: "I2C_ReadToBuffer 6 False ?sx = (SEN55_ERR_OK, ?s2)"
    by (rule ReadToBuffer_all_good [OF d _ _ x]) simp_all
  have "take 6 (Receive_BUF (store_words ?ws ?s1)) = [oh, ol, sh, sl, thi, tlo]"
    using len by (intro store_three_words) (simp_all add: emit_def)
  then have t6: "take 6 (Receive_BUF ?s2) = [oh, ol, sh, sl, thi, tlo]" by simp
  have w: "byte_to_int16_t ?s2 0 = word16 oh ol" "byte_to_int16_t ?s2 2 = word16 sh sl"
    "byte_to_Uint16_t ?s2 4 = word16 thi tlo"
    unfolding byte_to_int16_t_def byte_to_Uint16_t_def word16_def
    using take6_nth [OF t6] by simp_all
  have st: "started ?s2 = started s"
    by (simp add: store_words_frame emit_def)
  have "GetTmpComp s =
      (SEN55_ERR_OK,
       \<lparr>offset = word_of_int (sint (word16 oh ol) sdiv 200),
        slope = word_of_int (sint (word16 sh sl) sdiv 1000),
        time = word16 thi tlo\<rparr>, ?s2)"
    unfolding GetTmpComp_def e r using w by simp
  with st show ?thesis by blast
qed

lemma SetTmpComp_frame:
  "fst (SetTmpComp t s) = SEN55_ERR_OK \<and>
   trace (snd (snd (SetTmpComp t s))) = trace s @
     [(started s, Transmit ([0x60, 0xB2] @ wire (word_of_int (sint (offset t) * 200)) @
        wire (word_of_int (sint (slope t) * 1000)) @ wire (time t)))]"
  by (simp add: SetTmpComp_def I2C_fill_buffer_def I2C_SetPointer_def fill_simps emit_def
      wire_def group_def Let_def shr_byte_def [of 8 SEN55_TEMP_COMP] shr_byte_def [of 0 SEN55_TEMP_COMP])

lemma tmp_comp_frame:
  assumes "device_out s = (group (oh, ol) @ group (sh, sl) @ group (thi, tlo)) # dev"
    and "6 \<le> length (Receive_BUF s)"
  shows "fst (GetTmpComp s) = SEN55_ERR_OK \<and>
     fst (SetTmpComp (fst (snd (GetTmpComp s))) (snd (snd (GetTmpComp s)))) = SEN55_ERR_OK \<and>
     last (trace (snd (snd (SetTmpComp (fst (snd (GetTmpComp s))) (snd (snd (GetTmpComp s))))))) =
       (started s, Transmit ([0x60, 0xB2] @ wire (trunc_to 200 (word16 oh ol)) @
          wire (trunc_to 1000 (word16 sh sl)) @ group (thi, tlo))) \<and>
     (trunc_to 200 (word16 oh ol) = word16 oh ol) = (200 dvd sint (word16 oh ol)) \<and>
     (trunc_to 1000 (word16 sh sl) = word16 sh sl) = (1000 dvd sint (word16 sh sl))"
proof -
  from GetTmpComp_ok [OF assms]
  obtain s1 where g: "GetTmpComp s =
      (SEN55_ERR_OK,
       \<lparr>offset = word_of_int (sint (word16 oh ol) sdiv 200),
        slope = word_of_int (sint (word16 sh sl) sdiv 1000),
        time = word16 thi tlo\<rparr>, s1)" and st: "started s1 = started s"
    by blast
  have sc: "word_of_int (sint (word16 oh ol) sdiv 200) * 200 = trunc_to 200 (word16 oh ol)"
      "word_of_int (sint (word16 sh sl) sdiv 1000) * 1000 = trunc_to 1000 (word16 sh sl)"
    by (simp_all add: trunc_to_def)
  show ?thesis
    using SetTmpComp_frame [of "\<lparr>offset = word_of_int (sint (word16 oh ol) sdiv 200),
        slope = word_of_int (sint (word16 sh sl) sdiv 1000),
        time = word16 thi tlo\<rparr>" s1]
    by (simp add: g st sc wire_word16 trunc_to_eq_iff)
qed

section \<open>Outbound frames\<close>

text \<open>
  C1 (the code at a failing input). On a freshly constructed global object, with no
  measurement running, \<open>SetAutoCleanInt v\<close> returns \<open>SEN55_ERR_OK\<close> and transmits the
  opcode \<open>0x80, 0x04\<close> followed by the two words of the member \<open>data32\<close>, which is 0
  there: the frame is the same for every argument \<open>v\<close> and encodes the interval 0.
  The method never copies its argument into \<open>data32\<close>, as \<open>SetWarmStart\<close> and
  \<open>SetRHTAccelMode\<close> do with \<open>data16\<close>.
\<close>

theorem SetAutoCleanInt_sends_data32:
  "fst (SetAutoCleanInt v (SEN55_ctor (static_storage False []))) = SEN55_ERR_OK \<and>
   trace (snd (SetAutoCleanInt v (SEN55_ctor (static_storage False [])))) =
     [(False, Transmit [0x80, 0x04, 0x00, 0x00, 0x81, 0x00, 0x00, 0x81])]"
  by (simp add: SetAutoCleanInt_def SEN55_ctor_def static_storage_def I2C_SetPointer_def
      I2C_fill_buffer_def fill_simps emit_def shr_byte_def crc_00)

text \<open>
  C2 (the code at a failing input). For the 8-byte table \<open>v0 \<dots> v7\<close>,
  \<open>SetVocAlgorithmState\<close> returns \<open>SEN55_ERR_OK\<close> and transmits a frame of 12 bytes, not
  \<open>2 + 3 * 4 = 14\<close>: the opcode, four table bytes, the checksum of \<open>v0, v1\<close>, four table
  bytes, the checksum of \<open>v1, v2\<close>. The words \<open>v2 v3\<close>, \<open>v4 v5\<close> and \<open>v6 v7\<close> are
  followed by no checksum of their own.
\<close>

theorem SetVocAlgorithmState_frame:
  "fst (SetVocAlgorithmState [v0, v1, v2, v3, v4, v5, v6, v7] 8
          (SEN55_ctor (static_storage False []))) = SEN55_ERR_OK \<and>
   Send_BUF_Length (snd (SetVocAlgorithmState [v0, v1, v2, v3, v4, v5, v6, v7] 8
          (SEN55_ctor (static_storage False [])))) = 12 \<and>
   trace (snd (SetVocAlgorithmState [v0, v1, v2, v3, v4, v5, v6, v7] 8
          (SEN55_ctor (static_storage False [])))) =
     [(False, Transmit [0x61, 0x81, v0, v1, v2, v3, I2C_calc_CRC [v0, v1],
                        v4, v5, v6, v7, I2C_calc_CRC [v1, v2]])]"
  by (simp add: SetVocAlgorithmState_def SEN55_ctor_def static_storage_def I2C_SetPointer_def
      I2C_fill_buffer_def fill_simps emit_def shr_byte_def and_ff_u8)

section \<open>Checksum vector\<close>

text \<open>
  C4 (amended). The checksum of the bytes \<open>0x00, 0x00\<close> is \<open>0x81\<close>.
\<close>

theorem crc_zero_word: "I2C_calc_CRC [0x00, 0x00] = 0x81"
  by code_simp

text \<open>
  C4 as stated: the checksum of \<open>0x00, 0x00\<close> would be \<open>0xAC\<close>. It is not.
\<close>

theorem crc_zero_word_not_AC: "I2C_calc_CRC [0x00, 0x00] \<noteq> 0xAC"
  by code_simp

section \<open>Decoding responses\<close>

text \<open>
  C5 (amended). The bus delivered the expected number of bytes: the groups of the words
  \<open>ws\<close>, each with its right checksum, then a group \<open>h, l, c\<close> whose third byte is not
  the checksum of \<open>h, l\<close>, then any further bytes. In fixed-length mode, and in
  zero-terminated mode when none of \<open>ws\<close> is the word \<open>0x0000\<close>, the read returns
  \<open>SEN55_ERR_PROTOCOL\<close> and the decoded output holds the bytes of \<open>ws\<close> and nothing
  else: no byte of the bad group or of a later one. (The last hypothesis keeps the
  stores inside the 50-byte array.)
\<close>

theorem bad_checksum_protocol_error:
  assumes "device_out s = (concat (map group ws) @ [h, l, c] @ tail_bytes) # dev"
    and "3 * length ws + 3 + length tail_bytes = exp_cnt count s"
    and "c \<noteq> I2C_calc_CRC [h, l]"
    and "chk_zero \<longrightarrow> (\<forall>w\<in>set ws. w \<noteq> (0, 0))"
    and "2 * length ws \<le> length (Receive_BUF s)"
  shows "fst (I2C_ReadToBuffer count chk_zero s) = SEN55_ERR_PROTOCOL \<and>
         Receive_BUF_Length (snd (I2C_ReadToBuffer count chk_zero s)) = 2 * length ws \<and>
         take (2 * length ws) (Receive_BUF (snd (I2C_ReadToBuffer count chk_zero s))) =
           words_bytes ws"
proof -
  let ?s1 = "(emit (RequestFrom (exp_cnt count s)) (s\<lparr>Receive_BUF_Length := 0\<rparr>))
         \<lparr>wire_rx := concat (map group ws) @ [h, l, c] @ tail_bytes, device_out := dev\<rparr>"
  have r: "I2C_ReadToBuffer count chk_zero s =
      (SEN55_ERR_PROTOCOL, (store_words ws ?s1)\<lparr>wire_rx := tail_bytes\<rparr>)"
    using assms(1-4) by (rule ReadToBuffer_bad_group)
  have "Receive_BUF_Length ?s1 + 2 * length ws \<le> length (Receive_BUF ?s1)"
    using assms(5) by (simp add: emit_def)
  from store_words_buf [OF this] store_words_length [of ws ?s1] show ?thesis
    by (simp add: r emit_def)
qed

text \<open>
  C5 (amended) at a concrete input: a response of three groups whose second group has
  a wrong checksum, read in zero-terminated mode.
\<close>

theorem bad_checksum_protocol_error_witness:
  "fst (I2C_ReadToBuffer 6 True (SEN55_ctor (static_storage False
          [[0xBE, 0xEF, 0x92, 0x01, 0x02, 0xFF, 0x00, 0x00, 0x81]]))) = SEN55_ERR_PROTOCOL \<and>
   Receive_BUF_Length (snd (I2C_ReadToBuffer 6 True (SEN55_ctor (static_storage False
          [[0xBE, 0xEF, 0x92, 0x01, 0x02, 0xFF, 0x00, 0x00, 0x81]])))) = 2 \<and>
   take 2 (Receive_BUF (snd (I2C_ReadToBuffer 6 True (SEN55_ctor (static_storage False
          [[0xBE, 0xEF, 0x92, 0x01, 0x02, 0xFF, 0x00, 0x00, 0x81]]))))) = [0xBE, 0xEF]"
proof -
  let ?s = "SEN55_ctor (static_storage False
          [[0xBE, 0xEF, 0x92, 0x01, 0x02, 0xFF, 0x00, 0x00, 0x81]])"
  have c: "I2C_calc_CRC [0xBE, 0xEF] = 0x92" by code_simp
  have h1: "device_out ?s =
      (concat (map group [(0xBE, 0xEF)]) @ [0x01, 0x02, 0xFF] @ [0x00, 0x00, 0x81]) # []"
    by (simp add: SEN55_ctor_def static_storage_def group_def c)
  have h2: "3 * length [(0xBE :: u8, 0xEF :: u8)] + 3 + length [0x00, 0x00, 0x81 :: u8] =
      exp_cnt 6 ?s"
    by (simp add: exp_cnt_def SEN55_ctor_def static_storage_def)
  have h3: "(0xFF :: u8) \<noteq> I2C_calc_CRC [0x01, 0x02]" by code_simp
  have h4: "True \<longrightarrow> (\<forall>w\<in>set [(0xBE :: u8, 0xEF :: u8)]. w \<noteq> (0, 0))" by simp
  have h5: "2 * length [(0xBE :: u8, 0xEF :: u8)] \<le> length (Receive_BUF ?s)"
    by (simp add: SEN55_ctor_def static_storage_def)
  from bad_checksum_protocol_error [OF h1 h2 h3 h4 h5] show ?thesis
    by (simp add: words_bytes_def)
qed

text \<open>
  C5 as stated fails in zero-terminated mode: after the valid word \<open>0x0000\<close> the
  remaining bytes are flushed unread, so a later group with a wrong checksum
  (\<open>0x01, 0x02, 0xFF\<close>) does not make the read fail.
\<close>

theorem zero_word_hides_bad_checksum:
  "I2C_calc_CRC [0x01, 0x02] \<noteq> 0xFF \<and>
   fst (I2C_ReadToBuffer 4 True (SEN55_ctor (static_storage False
          [[0x00, 0x00, 0x81, 0x01, 0x02, 0xFF]]))) = SEN55_ERR_OK"
  by code_simp

text \<open>
  C6. In zero-terminated mode, when the bus delivered the expected number of bytes and
  the groups of the non-zero words \<open>ws\<close> are followed by the group of the word
  \<open>0x0000\<close> and by any further bytes, the read returns \<open>SEN55_ERR_OK\<close>, no byte is
  left pending in the port, and the decoded output is \<open>ws\<close> and the zero word: the
  further bytes are not decoded, whatever the requested count is.
\<close>

theorem zero_word_terminates:
  assumes "device_out s = (concat (map group ws) @ group (0, 0) @ tail_bytes) # dev"
    and "3 * length ws + 3 + length tail_bytes = exp_cnt count s"
    and "\<forall>w\<in>set ws. w \<noteq> (0, 0)"
    and "2 * length ws + 2 \<le> length (Receive_BUF s)"
  shows "fst (I2C_ReadToBuffer count True s) = SEN55_ERR_OK \<and>
         wire_rx (snd (I2C_ReadToBuffer count True s)) = [] \<and>
         Receive_BUF_Length (snd (I2C_ReadToBuffer count True s)) = 2 * length ws + 2 \<and>
         take (2 * length ws + 2) (Receive_BUF (snd (I2C_ReadToBuffer count True s))) =
           words_bytes ws @ [0, 0]"
proof -
  let ?s1 = "(emit (RequestFrom (exp_cnt count s)) (s\<lparr>Receive_BUF_Length := 0\<rparr>))
         \<lparr>wire_rx := concat (map group ws) @ group (0, 0) @ tail_bytes, device_out := dev\<rparr>"
  have r: "I2C_ReadToBuffer count True s =
      (SEN55_ERR_OK, (store_words (ws @ [(0, 0)]) ?s1)\<lparr>wire_rx := []\<rparr>)"
    using assms(1-3) by (rule ReadToBuffer_zero_word)
  have "Receive_BUF_Length ?s1 + 2 * length (ws @ [(0, 0)]) \<le> length (Receive_BUF ?s1)"
    using assms(4) by (simp add: emit_def)
  from store_words_buf [OF this] store_words_length [of "ws @ [(0, 0)]" ?s1] show ?thesis
    by (simp add: r emit_def words_bytes_def)
qed

text \<open>
  C6 at a concrete input: a request for 6 bytes answered by a word, the zero word and
  three bytes that are no valid group. 4 bytes are decoded and the read succeeds.
\<close>

theorem zero_word_terminates_witness:
  "fst (I2C_ReadToBuffer 6 True (SEN55_ctor (static_storage False
          [[0x41, 0x42, 0xA3, 0x00, 0x00, 0x81, 0x09, 0x09, 0x09]]))) = SEN55_ERR_OK \<and>
   wire_rx (snd (I2C_ReadToBuffer 6 True (SEN55_ctor (static_storage False
          [[0x41, 0x42, 0xA3, 0x00, 0x00, 0x81, 0x09, 0x09, 0x09]])))) = [] \<and>
   Receive_BUF_Length (snd (I2C_ReadToBuffer 6 True (SEN55_ctor (static_storage False
          [[0x41, 0x42, 0xA3, 0x00, 0x00, 0x81, 0x09, 0x09, 0x09]])))) = 4 \<and>
   take 4 (Receive_BUF (snd (I2C_ReadToBuffer 6 True (SEN55_ctor (static_storage False
          [[0x41, 0x42, 0xA3, 0x00, 0x00, 0x81, 0x09, 0x09, 0x09]]))))) =
     [0x41, 0x42, 0x00, 0x00]"
proof -
  let ?s = "SEN55_ctor (static_storage False
          [[0x41, 0x42, 0xA3, 0x00, 0x00, 0x81, 0x09, 0x09, 0x09]])"
  have c: "I2C_calc_CRC [0x41, 0x42] = 0xA3" "I2C_calc_CRC [0x00, 0x00] = 0x81" by code_simp+
  have h1: "device_out ?s =
      (concat (map group [(0x41, 0x42)]) @ group (0, 0) @ [0x09, 0x09, 0x09]) # []"
    by (simp add: SEN55_ctor_def static_storage_def group_def c)
  have h2: "3 * length [(0x41 :: u8, 0x42 :: u8)] + 3 + length [0x09, 0x09, 0x09 :: u8] =
      exp_cnt 6 ?s"
    by (simp add: exp_cnt_def SEN55_ctor_def static_storage_def)
  have h3: "\<forall>w\<in>set [(0x41 :: u8, 0x42 :: u8)]. w \<noteq> (0, 0)" by simp
  have h4: "2 * length [(0x41 :: u8, 0x42 :: u8)] + 2 \<le> length (Receive_BUF ?s)"
    by (simp add: SEN55_ctor_def static_storage_def)
  from zero_word_terminates [OF h1 h2 h3 h4] show ?thesis
    by (simp add: words_bytes_def)
qed

text \<open>
  C7 (amended). When the number of bytes the port reports differs from the number the
  driver requested, the read returns \<open>SEN55_ERR_PROTOCOL\<close>. \<open>SEN55_ERR_DATALENGTH\<close> is
  returned only when the port reported the requested number and the number of bytes
  stored in the receive buffer is neither zero nor \<open>count\<close>. For up to 85 words the
  requested number is 3 bytes for each of the \<open>count / 2\<close> expected words, except on
  builds with \<open>MAX_32_TO_EXPECT\<close>, where it is at most 32: there a read of more than 10
  words is complete with 32 bytes, fewer than 3 for each expected word.
\<close>

theorem wrong_byte_count_is_protocol_error:
  "(fst (requestFrom (exp_cnt count s) s) \<noteq> exp_cnt count s \<longrightarrow>
      fst (I2C_ReadToBuffer count chk_zero s) = SEN55_ERR_PROTOCOL) \<and>
   (fst (I2C_ReadToBuffer count chk_zero s) = SEN55_ERR_DATALENGTH \<longrightarrow>
      fst (requestFrom (exp_cnt count s) s) = exp_cnt count s \<and>
      Receive_BUF_Length (snd (I2C_ReadToBuffer count chk_zero s)) \<noteq> 0 \<and>
      Receive_BUF_Length (snd (I2C_ReadToBuffer count chk_zero s)) \<noteq> unat count) \<and>
   (unat count div 2 \<le> 85 \<longrightarrow>
      exp_cnt count s =
        (if max_32_to_expect s then min 32 (3 * (unat count div 2))
         else 3 * (unat count div 2)))"
proof -
  have "exp_cnt count s =
        (if max_32_to_expect s then min 32 (3 * (unat count div 2))
         else 3 * (unat count div 2))" if "unat count div 2 \<le> 85"
  proof -
    from that have "unat count div 2 * 3 < 256" by simp
    then have "(unat count div 2 * 3) mod 256 = 3 * (unat count div 2)"
      by (simp add: mult.commute)
    then show ?thesis by (simp add: exp_cnt_def Let_def min_def)
  qed
  then show ?thesis
    using ReadToBuffer_short [of count s chk_zero] ReadToBuffer_datalength [of count chk_zero s]
    by blast
qed

text \<open>
  C7 (amended) at concrete inputs. One byte received where three are requested gives
  \<open>SEN55_ERR_PROTOCOL\<close>. On a build with \<open>MAX_32_TO_EXPECT\<close>, a zero-terminated read of
  32 bytes (16 words, 48 bytes on the wire) requests 32 bytes; when the port delivers
  these 32 bytes and the ten complete groups hold no zero word, the read stores 22 bytes
  and returns \<open>SEN55_ERR_DATALENGTH\<close>.
\<close>

theorem wrong_byte_count_is_protocol_error_witness:
  "exp_cnt 2 (SEN55_ctor (static_storage False [[0xBE]])) = 3 \<and>
   fst (requestFrom 3 (SEN55_ctor (static_storage False [[0xBE]]))) = 1 \<and>
   fst (I2C_ReadToBuffer 2 False (SEN55_ctor (static_storage False [[0xBE]]))) = SEN55_ERR_PROTOCOL \<and>
   exp_cnt 32 (SEN55_ctor (static_storage True
      [concat (replicate 10 (group (0x41, 0x42))) @ [0x41, 0x42]])) = 32 \<and>
   fst (requestFrom 32 (SEN55_ctor (static_storage True
      [concat (replicate 10 (group (0x41, 0x42))) @ [0x41, 0x42]]))) = 32 \<and>
   fst (I2C_ReadToBuffer 32 True (SEN55_ctor (static_storage True
      [concat (replicate 10 (group (0x41, 0x42))) @ [0x41, 0x42]]))) = SEN55_ERR_DATALENGTH \<and>
   Receive_BUF_Length (snd (I2C_ReadToBuffer 32 True (SEN55_ctor (static_storage True
      [concat (replicate 10 (group (0x41, 0x42))) @ [0x41, 0x42]])))) = 22"
proof -
  let ?a = "SEN55_ctor (static_storage False [[0xBE]])"
  let ?c = "SEN55_ctor (static_storage True
      [concat (replicate 10 (group (0x41, 0x42))) @ [0x41, 0x42]])"
  have ma: "\<not> max_32_to_expect ?a" and mc: "max_32_to_expect ?c"
    by (simp_all add: SEN55_ctor_def static_storage_def)
  have ka: "unat (2 :: u8) div 2 \<le> 85" and kc: "unat (32 :: u8) div 2 \<le> 85"
    by simp_all
  from wrong_byte_count_is_protocol_error [of 2 ?a False] ka ma
  have ea: "exp_cnt 2 ?a = 3" by simp
  from wrong_byte_count_is_protocol_error [of 32 ?c True] kc mc
  have ec: "exp_cnt 32 ?c = 32" by simp
  have ra: "fst (requestFrom 3 ?a) = 1"
    by (simp add: requestFrom_def Let_def SEN55_ctor_def static_storage_def)
  have ha: "fst (requestFrom (exp_cnt 2 ?a) ?a) \<noteq> exp_cnt 2 ?a"
    by (simp add: ea ra)
  from wrong_byte_count_is_protocol_error [of 2 ?a False] ha
  have pa: "fst (I2C_ReadToBuffer 2 False ?a) = SEN55_ERR_PROTOCOL" by blast
  have hc: "fst (I2C_ReadToBuffer 32 True ?c) = SEN55_ERR_DATALENGTH" by code_simp
  have lc: "Receive_BUF_Length (snd (I2C_ReadToBuffer 32 True ?c)) = 22" by code_simp
  from wrong_byte_count_is_protocol_error [of 32 ?c True] hc
  have "fst (requestFrom (exp_cnt 32 ?c) ?c) = exp_cnt 32 ?c" by blast
  then have rc: "fst (requestFrom 32 ?c) = 32" by (simp add: ec)
  from ea ra pa ec rc hc lc show ?thesis by simp
qed

text \<open>
  C7 as stated fails: with one byte received where three are expected, the result is
  not \<open>SEN55_ERR_DATALENGTH\<close>.
\<close>

theorem short_read_not_datalength:
  "exp_cnt 2 (SEN55_ctor (static_storage False [[0xBE]])) = 3 \<and>
   fst (requestFrom 3 (SEN55_ctor (static_storage False [[0xBE]]))) = 1 \<and>
   fst (I2C_ReadToBuffer 2 False (SEN55_ctor (static_storage False [[0xBE]]))) \<noteq>
     SEN55_ERR_DATALENGTH"
  by code_simp

section \<open>Reading measurements while idle\<close>

text \<open>
  C8. When no measurement is running, \<open>GetValues\<close> and \<open>GetValuesPM\<close> first
  transmit a start command (\<open>0x0021\<close>, or \<open>0x0037\<close> for \<open>GetValues\<close> without laser)
  while the session is still idle, set the started flag and wait (1000 ms in \<open>Instruct\<close>,
  100 ms more in \<open>GetValues\<close>); the read command and the read request come after
  that, with the flag set. The log lists every effect of the call with the value of the
  flag at its moment; the session is measuring when the call returns.
\<close>

theorem auto_start_before_read:
  assumes "\<not> started s"
  shows "started (snd (snd (GetValues rnd v0 laser s))) \<and>
     trace (snd (snd (GetValues rnd v0 laser s))) = trace s @
       [(False, Transmit [0x00, if laser then 0x21 else 0x37]), (True, Delay 1000),
        (True, Delay 100), (True, Transmit [0x03, 0xC4]), (True, Delay 5),
        (True, RequestFrom 24)] \<and>
     started (snd (snd (GetValuesPM rnd p0 s))) \<and>
     trace (snd (snd (GetValuesPM rnd p0 s))) = trace s @
       [(False, Transmit [0x00, 0x21]), (True, Delay 1000),
        (True, Transmit [0x04, 0x13]), (True, Delay 5), (True, RequestFrom 30)]"
proof -
  have e: "\<And>t. exp_cnt 16 t = 24" "\<And>t. exp_cnt 20 t = 30"
    by (simp_all add: exp_cnt_def)
  show ?thesis
    by (simp add: GetValues_idle [OF assms] GetValuesPM_idle [OF assms] ReadToBuffer_env e)
qed

text \<open>
  C8 at a concrete input: a freshly constructed object, which is idle.
\<close>

theorem auto_start_before_read_witness:
  "started (snd (snd (GetValues (\<lambda>x. x) zero_values True (SEN55_ctor (static_storage False []))))) \<and>
   trace (snd (snd (GetValues (\<lambda>x. x) zero_values True (SEN55_ctor (static_storage False []))))) =
       [(False, Transmit [0x00, 0x21]), (True, Delay 1000),
        (True, Delay 100), (True, Transmit [0x03, 0xC4]), (True, Delay 5),
        (True, RequestFrom 24)]"
proof -
  have h: "\<not> started (SEN55_ctor (static_storage False []))"
    by (simp add: SEN55_ctor_def static_storage_def)
  have t: "trace (SEN55_ctor (static_storage False [])) = []"
    by (simp add: SEN55_ctor_def static_storage_def)
  from auto_start_before_read [OF h, where rnd = "\<lambda>x. x" and ?v0.0 = zero_values and laser = True]
  show ?thesis
    by (simp add: t)
qed

section \<open>Temperature compensation: reading and writing back\<close>

text \<open>
  C3 (amended). The device answers the read of the temperature compensation with the
  words \<open>oh ol\<close> (offset), \<open>sh sl\<close> (slope) and \<open>thi tlo\<close> (time constant). \<open>GetTmpComp\<close>
  succeeds, and \<open>SetTmpComp\<close> on the structure it filled transmits the opcode followed
  by the offset truncated towards zero to a multiple of 200, the slope truncated towards
  zero to a multiple of 1000, and the time constant unchanged, each with its checksum.
  The offset word written is the word read exactly when the signed offset is a multiple
  of 200, and the slope word exactly when the signed slope is a multiple of 1000.
\<close>

theorem tmp_comp_write_back:
  assumes "device_out s = (group (oh, ol) @ group (sh, sl) @ group (thi, tlo)) # dev"
    and "6 \<le> length (Receive_BUF s)"
  shows "fst (GetTmpComp s) = SEN55_ERR_OK \<and>
     fst (SetTmpComp (fst (snd (GetTmpComp s))) (snd (snd (GetTmpComp s)))) = SEN55_ERR_OK \<and>
     last (trace (snd (snd (SetTmpComp (fst (snd (GetTmpComp s))) (snd (snd (GetTmpComp s))))))) =
       (started s, Transmit ([0x60, 0xB2] @ wire (trunc_to 200 (word16 oh ol)) @
          wire (trunc_to 1000 (word16 sh sl)) @ group (thi, tlo))) \<and>
     (trunc_to 200 (word16 oh ol) = word16 oh ol) = (200 dvd sint (word16 oh ol)) \<and>
     (trunc_to 1000 (word16 sh sl) = word16 sh sl) = (1000 dvd sint (word16 sh sl))"
  using assms by (rule tmp_comp_frame)

text \<open>
  C3 (amended) at a concrete input: the device values offset 400, slope -1000 and
  time 10. Both are multiples of their scale and the frame written back carries the
  three words read.
\<close>

theorem tmp_comp_write_back_witness:
  "last (trace (snd (snd (SetTmpComp
      (fst (snd (GetTmpComp (SEN55_ctor (static_storage False
          [group (0x01, 0x90) @ group (0xFC, 0x18) @ group (0x00, 0x0A)])))))
      (snd (snd (GetTmpComp (SEN55_ctor (static_storage False
          [group (0x01, 0x90) @ group (0xFC, 0x18) @ group (0x00, 0x0A)]))))))))) =
     (False, Transmit ([0x60, 0xB2] @ group (0x01, 0x90) @ group (0xFC, 0x18) @
        group (0x00, 0x0A))) \<and>
   sint (word16 0x01 0x90) = 400 \<and> sint (word16 0xFC 0x18) = - 1000"
proof -
  let ?s = "SEN55_ctor (static_storage False
          [group (0x01, 0x90) @ group (0xFC, 0x18) @ group (0x00, 0x0A)])"
  have h1: "device_out ?s = (group (0x01, 0x90) @ group (0xFC, 0x18) @ group (0x00, 0x0A)) # []"
    by (simp add: SEN55_ctor_def static_storage_def)
  have h2: "6 \<le> length (Receive_BUF ?s)"
    by (simp add: SEN55_ctor_def static_storage_def)
  have st: "started ?s = False"
    by (simp add: SEN55_ctor_def static_storage_def)
  have v: "sint (word16 0x01 0x90) = 400" "sint (word16 0xFC 0x18) = - 1000"
    by code_simp+
  from tmp_comp_write_back [OF h1 h2] show ?thesis
    by (simp add: v st wire_word16)
qed

text \<open>
  C3 as stated fails: with the device values offset 100 (0.5 degrees) and slope 500
  the read succeeds, and the frame written back carries offset 0 and slope 0.
\<close>

theorem tmp_comp_roundtrip_loses_fraction:
  "fst (GetTmpComp (SEN55_ctor (static_storage False
      [group (0x00, 0x64) @ group (0x01, 0xF4) @ group (0x00, 0x0A)]))) = SEN55_ERR_OK \<and>
   last (trace (snd (snd (SetTmpComp
      (fst (snd (GetTmpComp (SEN55_ctor (static_storage False
          [group (0x00, 0x64) @ group (0x01, 0xF4) @ group (0x00, 0x0A)])))))
      (snd (snd (GetTmpComp (SEN55_ctor (static_storage False
          [group (0x00, 0x64) @ group (0x01, 0xF4) @ group (0x00, 0x0A)]))))))))) =
     (False, Transmit ([0x60, 0xB2] @ group (0x00, 0x00) @ group (0x00, 0x00) @
        group (0x00, 0x0A))) \<and>
   group (0x00, 0x00) \<noteq> group (0x00, 0x64) \<and> group (0x00, 0x00) \<noteq> group (0x01, 0xF4)"
proof -
  let ?s = "SEN55_ctor (static_storage False
          [group (0x00, 0x64) @ group (0x01, 0xF4) @ group (0x00, 0x0A)])"
  have h1: "device_out ?s = (group (0x00, 0x64) @ group (0x01, 0xF4) @ group (0x00, 0x0A)) # []"
    by (simp add: SEN55_ctor_def static_storage_def)
  have h2: "6 \<le> length (Receive_BUF ?s)"
    by (simp add: SEN55_ctor_def static_storage_def)
  have st: "started ?s = False"
    by (simp add: SEN55_ctor_def static_storage_def)
  have v: "trunc_to 200 (word16 0x00 0x64) = 0" "trunc_to 1000 (word16 0x01 0xF4) = 0"
    by code_simp+
  have w: "wire 0 = group (0, 0)" by (simp add: wire_def shr_byte_def)
  have g: "group (0x00, 0x00) \<noteq> group (0x00, 0x64)" "group (0x00, 0x00) \<noteq> group (0x01, 0xF4)"
    by (simp_all add: group_def)
  from tmp_comp_frame [OF h1 h2] show ?thesis
    by (simp add: v st w g)
qed

section \<open>Status register\<close>

text \<open>
  C9. The firmware check passes and the device answers the status read with the words
  \<open>a b\<close> and \<open>c d\<close>. If one of the error bits is set (fan speed: bit \<open>0x20\<close> of \<open>b\<close>;
  gas, RH/T, laser, fan: bits \<open>0x80\<close>, \<open>0x40\<close>, \<open>0x20\<close>, \<open>0x10\<close> of \<open>d\<close>),
  \<open>GetStatusReg\<close> returns \<open>SEN55_ERR_OUTOFRANGE\<close>, which is not \<open>SEN55_ERR_OK\<close>, the
  status has each error flag exactly when its bit is set and has no cleaning-active
  flag, whatever the cleaning bit \<open>0x08\<close> of \<open>b\<close> is. If no error bit is set, it returns
  \<open>SEN55_ERR_OK\<close> and the status is the cleaning-active flag when the cleaning bit is
  set, and \<open>STATUS_OK_55\<close> otherwise.
\<close>

theorem status_errors_take_precedence:
  assumes "fst (FWCheck 2 0 s)"
    and "device_out (snd (FWCheck 2 0 s)) = (group (a, b) @ group (c, d)) # dev"
    and "4 \<le> length (Receive_BUF (snd (FWCheck 2 0 s)))"
  shows "if b AND 0x20 \<noteq> 0 \<or> d AND 0x80 \<noteq> 0 \<or> d AND 0x40 \<noteq> 0 \<or> d AND 0x20 \<noteq> 0
            \<or> d AND 0x10 \<noteq> 0
         then fst (GetStatusReg s) = SEN55_ERR_OUTOFRANGE \<and>
              fst (GetStatusReg s) \<noteq> SEN55_ERR_OK \<and>
              fst (snd (GetStatusReg s)) AND STATUS_FAN_CLEAN_ACTIVE_55 = 0 \<and>
              (fst (snd (GetStatusReg s)) AND STATUS_SPEED_ERROR_55 \<noteq> 0) = (b AND 0x20 \<noteq> 0) \<and>
              (fst (snd (GetStatusReg s)) AND STATUS_GAS_ERROR_55 \<noteq> 0) = (d AND 0x80 \<noteq> 0) \<and>
              (fst (snd (GetStatusReg s)) AND STATUS_RHT_ERROR_55 \<noteq> 0) = (d AND 0x40 \<noteq> 0) \<and>
              (fst (snd (GetStatusReg s)) AND STATUS_LASER_ERROR_55 \<noteq> 0) = (d AND 0x20 \<noteq> 0) \<and>
              (fst (snd (GetStatusReg s)) AND STATUS_FAN_ERROR_55 \<noteq> 0) = (d AND 0x10 \<noteq> 0)
         else fst (GetStatusReg s) = SEN55_ERR_OK \<and>
              fst (snd (GetStatusReg s)) =
                (if b AND 0x08 \<noteq> 0 then STATUS_FAN_CLEAN_ACTIVE_55 else STATUS_OK_55)"
proof -
  obtain s1 where fw: "FWCheck 2 0 s = (True, s1)"
    using assms(1) by (cases "FWCheck 2 0 s") auto
  from status_read [of s1 a b c d dev] assms(2,3) fw
  obtain s2 where rd: "I2C_SetPointer_Read 4 False
        (I2C_fill_buffer SEN55_READ_DEVICE_REGISTER NoVal s1) = (SEN55_ERR_OK, s2)"
    and b: "Receive_BUF s2 ! Suc 0 = b" and d: "Receive_BUF s2 ! 3 = d"
    by auto
  from clear_after_read [of s2]
  obtain s3 where cl: "I2C_SetPointer (I2C_fill_buffer SEN55_CLEAR_DEVICE_REGISTER NoVal s2) =
       (SEN55_ERR_OK, s3)" and same: "Receive_BUF s3 = Receive_BUF s2"
    by auto
  show ?thesis
    by (simp add: GetStatusReg_def fw rd cl same b d Let_def)
qed

text \<open>
  C9 at a concrete input: a fresh object whose device reports firmware 2.0 and then a
  status with both the cleaning bit and the gas error bit set. The gas error is
  reported, the cleaning is not.
\<close>

theorem status_errors_take_precedence_witness:
  "fst (GetStatusReg (SEN55_ctor (static_storage False
      [group (2, 0) @ group (0, 4) @ group (1, 0) @ group (1, 0),
       group (0x00, 0x08) @ group (0x00, 0x80)]))) = SEN55_ERR_OUTOFRANGE \<and>
   fst (snd (GetStatusReg (SEN55_ctor (static_storage False
      [group (2, 0) @ group (0, 4) @ group (1, 0) @ group (1, 0),
       group (0x00, 0x08) @ group (0x00, 0x80)])))) AND STATUS_FAN_CLEAN_ACTIVE_55 = 0 \<and>
   fst (snd (GetStatusReg (SEN55_ctor (static_storage False
      [group (2, 0) @ group (0, 4) @ group (1, 0) @ group (1, 0),
       group (0x00, 0x08) @ group (0x00, 0x80)])))) AND STATUS_GAS_ERROR_55 \<noteq> 0"
proof -
  let ?s = "SEN55_ctor (static_storage False
      [group (2, 0) @ group (0, 4) @ group (1, 0) @ group (1, 0),
       group (0x00, 0x08) @ group (0x00, 0x80)])"
  have h1: "fst (FWCheck 2 0 ?s)" by code_simp
  have h2: "device_out (snd (FWCheck 2 0 ?s)) = (group (0x00, 0x08) @ group (0x00, 0x80)) # []"
    by code_simp
  have h3: "4 \<le> length (Receive_BUF (snd (FWCheck 2 0 ?s)))" by code_simp
  from status_errors_take_precedence [OF h1 h2 h3] show ?thesis by simp
qed

section \<open>Accessors on a failed read\<close>

text \<open>
  C10. Each of \<open>GetWarmStart\<close>, \<open>GetRHTAccelMode\<close>, \<open>GetAutoCleanInt\<close>,
  \<open>GetNoxAlgorithm\<close>, \<open>GetVocAlgorithm\<close> and \<open>GetTmpComp\<close> stores in its out-parameter,
  whatever it returns and so also when it returns an error code, the value assembled
  from the bytes \<open>B\<close> that the receive buffer holds when the call ends: big-endian words
  of two bytes (four for the cleaning interval), the offset and the slope of the
  temperature compensation divided by 200 and by 1000. When the bus delivers no byte,
  each returns \<open>SEN55_ERR_PROTOCOL\<close> and leaves the receive buffer as it was before the
  call, so that the value stored is assembled from the bytes of an earlier transaction.
\<close>

theorem getters_store_on_error:
  "(let B = Receive_BUF (snd (snd (GetWarmStart s))) in
      fst (snd (GetWarmStart s)) =
        word16 (B ! 0) (B ! 1)) \<and>
   (let B = Receive_BUF (snd (snd (GetRHTAccelMode s))) in
      fst (snd (GetRHTAccelMode s)) =
        word16 (B ! 0) (B ! 1)) \<and>
   (let B = Receive_BUF (snd (snd (GetAutoCleanInt s))) in
      fst (snd (GetAutoCleanInt s)) =
        (push_bit 24 (ucast (B ! 0)) OR push_bit 16 (ucast (B ! 1)) OR
         push_bit 8 (ucast (B ! 2)) OR ucast (B ! 3))) \<and>
   (let B = Receive_BUF (snd (snd (GetNoxAlgorithm s))) in
      fst (snd (GetNoxAlgorithm s)) =
        \<lparr>IndexOffset = word16 (B ! 0) (B ! 1), LearnTimeOffsetHours = word16 (B ! 2) (B ! 3),
         LearnTimeGainHours = word16 (B ! 4) (B ! 5), GateMaxDurationMin = word16 (B ! 6) (B ! 7),
         stdInitial = word16 (B ! 8) (B ! 9), GainFactor = word16 (B ! 10) (B ! 11)\<rparr>) \<and>
   (let B = Receive_BUF (snd (snd (GetVocAlgorithm s))) in
      fst (snd (GetVocAlgorithm s)) =
        \<lparr>IndexOffset = word16 (B ! 0) (B ! 1), LearnTimeOffsetHours = word16 (B ! 2) (B ! 3),
         LearnTimeGainHours = word16 (B ! 4) (B ! 5), GateMaxDurationMin = word16 (B ! 6) (B ! 7),
         stdInitial = word16 (B ! 8) (B ! 9), GainFactor = word16 (B ! 10) (B ! 11)\<rparr>) \<and>
   (let B = Receive_BUF (snd (snd (GetTmpComp s))) in
      fst (snd (GetTmpComp s)) =
        \<lparr>offset = word_of_int (sint (word16 (B ! 0) (B ! 1)) sdiv 200),
         slope = word_of_int (sint (word16 (B ! 2) (B ! 3)) sdiv 1000),
         time = word16 (B ! 4) (B ! 5)\<rparr>) \<and>
   (device_out s = [] \<longrightarrow>
      fst (GetWarmStart s) = SEN55_ERR_PROTOCOL \<and>
      Receive_BUF (snd (snd (GetWarmStart s))) = Receive_BUF s \<and>
      fst (GetRHTAccelMode s) = SEN55_ERR_PROTOCOL \<and>
      Receive_BUF (snd (snd (GetRHTAccelMode s))) = Receive_BUF s \<and>
      fst (GetAutoCleanInt s) = SEN55_ERR_PROTOCOL \<and>
      Receive_BUF (snd (snd (GetAutoCleanInt s))) = Receive_BUF s \<and>
      fst (GetNoxAlgorithm s) = SEN55_ERR_PROTOCOL \<and>
      Receive_BUF (snd (snd (GetNoxAlgorithm s))) = Receive_BUF s \<and>
      fst (GetVocAlgorithm s) = SEN55_ERR_PROTOCOL \<and>
      Receive_BUF (snd (snd (GetVocAlgorithm s))) = Receive_BUF s \<and>
      fst (GetTmpComp s) = SEN55_ERR_PROTOCOL \<and>
      Receive_BUF (snd (snd (GetTmpComp s))) = Receive_BUF s)"
proof -
  have a_GetWarmStart:
    "(let B = Receive_BUF (snd (snd (GetWarmStart s))) in
     fst (snd (GetWarmStart s)) =
       word16 (B ! 0) (B ! 1))"
    by (simp add: GetWarmStart_def split_beta Let_def read_xox_def byte_to_Uint16_t_def
        byte_to_int16_t_def byte_to_U32_def word16_def eval_nat_numeral)
  have a_GetRHTAccelMode:
    "(let B = Receive_BUF (snd (snd (GetRHTAccelMode s))) in
     fst (snd (GetRHTAccelMode s)) =
       word16 (B ! 0) (B ! 1))"
    by (simp add: GetRHTAccelMode_def split_beta Let_def read_xox_def byte_to_Uint16_t_def
        byte_to_int16_t_def byte_to_U32_def word16_def eval_nat_numeral)
  have a_GetAutoCleanInt:
    "(let B = Receive_BUF (snd (snd (GetAutoCleanInt s))) in
     fst (snd (GetAutoCleanInt s)) =
       (push_bit 24 (ucast (B ! 0)) OR push_bit 16 (ucast (B ! 1)) OR
        push_bit 8 (ucast (B ! 2)) OR ucast (B ! 3)))"
    by (simp add: GetAutoCleanInt_def split_beta Let_def read_xox_def byte_to_Uint16_t_def
        byte_to_int16_t_def byte_to_U32_def word16_def eval_nat_numeral)
  have a_GetNoxAlgorithm:
    "(let B = Receive_BUF (snd (snd (GetNoxAlgorithm s))) in
     fst (snd (GetNoxAlgorithm s)) =
       \<lparr>IndexOffset = word16 (B ! 0) (B ! 1), LearnTimeOffsetHours = word16 (B ! 2) (B ! 3),
        LearnTimeGainHours = word16 (B ! 4) (B ! 5), GateMaxDurationMin = word16 (B ! 6) (B ! 7),
        stdInitial = word16 (B ! 8) (B ! 9), GainFactor = word16 (B ! 10) (B ! 11)\<rparr>)"
    by (simp add: GetNoxAlgorithm_def split_beta Let_def read_xox_def byte_to_Uint16_t_def
        byte_to_int16_t_def byte_to_U32_def word16_def eval_nat_numeral)
  have a_GetVocAlgorithm:
    "(let B = Receive_BUF (snd (snd (GetVocAlgorithm s))) in
     fst (snd (GetVocAlgorithm s)) =
       \<lparr>IndexOffset = word16 (B ! 0) (B ! 1), LearnTimeOffsetHours = word16 (B ! 2) (B ! 3),
        LearnTimeGainHours = word16 (B ! 4) (B ! 5), GateMaxDurationMin = word16 (B ! 6) (B ! 7),
        stdInitial = word16 (B ! 8) (B ! 9), GainFactor = word16 (B ! 10) (B ! 11)\<rparr>)"
    by (simp add: GetVocAlgorithm_def split_beta Let_def read_xox_def byte_to_Uint16_t_def
        byte_to_int16_t_def byte_to_U32_def word16_def eval_nat_numeral)
  have a_GetTmpComp:
    "(let B = Receive_BUF (snd (snd (GetTmpComp s))) in
     fst (snd (GetTmpComp s)) =
       \<lparr>offset = word_of_int (sint (word16 (B ! 0) (B ! 1)) sdiv 200),
        slope = word_of_int (sint (word16 (B ! 2) (B ! 3)) sdiv 1000),
        time = word16 (B ! 4) (B ! 5)\<rparr>)"
    by (simp add: GetTmpComp_def split_beta Let_def read_xox_def byte_to_Uint16_t_def
        byte_to_int16_t_def byte_to_U32_def word16_def eval_nat_numeral)
  have b_GetWarmStart: "fst (GetWarmStart s) = SEN55_ERR_PROTOCOL \<and>
        Receive_BUF (snd (snd (GetWarmStart s))) = Receive_BUF s" if "device_out s = []"
    using that SetPointer_Read_no_answer [of SEN55_WARM_START_PARAM s 2 False NoVal]
    by (simp add: GetWarmStart_def split_beta)
  have b_GetRHTAccelMode: "fst (GetRHTAccelMode s) = SEN55_ERR_PROTOCOL \<and>
        Receive_BUF (snd (snd (GetRHTAccelMode s))) = Receive_BUF s" if "device_out s = []"
    using that SetPointer_Read_no_answer [of SEN55_RHT_ACCEL s 2 False NoVal]
    by (simp add: GetRHTAccelMode_def split_beta)
  have b_GetAutoCleanInt: "fst (GetAutoCleanInt s) = SEN55_ERR_PROTOCOL \<and>
        Receive_BUF (snd (snd (GetAutoCleanInt s))) = Receive_BUF s" if "device_out s = []"
    using that SetPointer_Read_no_answer [of SEN55_AUTO_CLEANING_INTERVAL s 4 False NoVal]
    by (simp add: GetAutoCleanInt_def split_beta)
  have b_GetNoxAlgorithm: "fst (GetNoxAlgorithm s) = SEN55_ERR_PROTOCOL \<and>
        Receive_BUF (snd (snd (GetNoxAlgorithm s))) = Receive_BUF s" if "device_out s = []"
    using that SetPointer_Read_no_answer [of SEN55_NOX_TUNING s 12 False NoVal]
    by (simp add: GetNoxAlgorithm_def split_beta)
  have b_GetVocAlgorithm: "fst (GetVocAlgorithm s) = SEN55_ERR_PROTOCOL \<and>
        Receive_BUF (snd (snd (GetVocAlgorithm s))) = Receive_BUF s" if "device_out s = []"
    using that SetPointer_Read_no_answer [of SEN55_VOC_TUNING s 12 False NoVal]
    by (simp add: GetVocAlgorithm_def split_beta)
  have b_GetTmpComp: "fst (GetTmpComp s) = SEN55_ERR_PROTOCOL \<and>
        Receive_BUF (snd (snd (GetTmpComp s))) = Receive_BUF s" if "device_out s = []"
    using that SetPointer_Read_no_answer [of SEN55_TEMP_COMP s 6 False NoVal]
    by (simp add: GetTmpComp_def split_beta)
  show ?thesis
    using a_GetWarmStart a_GetRHTAccelMode a_GetAutoCleanInt a_GetNoxAlgorithm
      a_GetVocAlgorithm a_GetTmpComp b_GetWarmStart b_GetRHTAccelMode b_GetAutoCleanInt
      b_GetNoxAlgorithm b_GetVocAlgorithm b_GetTmpComp
    by blast
qed

text \<open>
  C10 at a concrete input: an object whose receive buffer still holds the twelve bytes
  \<open>AB CD 12 34 00 0A FF 38 01 90 FC 18\<close> of an earlier transaction and whose device does
  not answer. Every accessor fails and hands out the value assembled from these bytes;
  the offset is \<open>-21555 / 200 = -107\<close> and the slope \<open>4660 / 1000 = 4\<close>.
\<close>

theorem getters_store_on_error_witness:
  "fst (GetWarmStart ((SEN55_ctor (static_storage False []))
      \<lparr>Receive_BUF := [0xAB, 0xCD, 0x12, 0x34, 0x00, 0x0A, 0xFF, 0x38, 0x01, 0x90, 0xFC, 0x18] @ replicate 38 0\<rparr>)) = SEN55_ERR_PROTOCOL \<and>
   fst (snd (GetWarmStart ((SEN55_ctor (static_storage False []))
      \<lparr>Receive_BUF := [0xAB, 0xCD, 0x12, 0x34, 0x00, 0x0A, 0xFF, 0x38, 0x01, 0x90, 0xFC, 0x18] @ replicate 38 0\<rparr>))) =
     0xABCD \<and>
   fst (GetRHTAccelMode ((SEN55_ctor (static_storage False []))
      \<lparr>Receive_BUF := [0xAB, 0xCD, 0x12, 0x34, 0x00, 0x0A, 0xFF, 0x38, 0x01, 0x90, 0xFC, 0x18] @ replicate 38 0\<rparr>)) = SEN55_ERR_PROTOCOL \<and>
   fst (snd (GetRHTAccelMode ((SEN55_ctor (static_storage False []))
      \<lparr>Receive_BUF := [0xAB, 0xCD, 0x12, 0x34, 0x00, 0x0A, 0xFF, 0x38, 0x01, 0x90, 0xFC, 0x18] @ replicate 38 0\<rparr>))) =
     0xABCD \<and>
   fst (GetAutoCleanInt ((SEN55_ctor (static_storage False []))
      \<lparr>Receive_BUF := [0xAB, 0xCD, 0x12, 0x34, 0x00, 0x0A, 0xFF, 0x38, 0x01, 0x90, 0xFC, 0x18] @ replicate 38 0\<rparr>)) = SEN55_ERR_PROTOCOL \<and>
   fst (snd (GetAutoCleanInt ((SEN55_ctor (static_storage False []))
      \<lparr>Receive_BUF := [0xAB, 0xCD, 0x12, 0x34, 0x00, 0x0A, 0xFF, 0x38, 0x01, 0x90, 0xFC, 0x18] @ replicate 38 0\<rparr>))) =
     0xABCD1234 \<and>
   fst (GetNoxAlgorithm ((SEN55_ctor (static_storage False []))
      \<lparr>Receive_BUF := [0xAB, 0xCD, 0x12, 0x34, 0x00, 0x0A, 0xFF, 0x38, 0x01, 0x90, 0xFC, 0x18] @ replicate 38 0\<rparr>)) = SEN55_ERR_PROTOCOL \<and>
   fst (snd (GetNoxAlgorithm ((SEN55_ctor (static_storage False []))
      \<lparr>Receive_BUF := [0xAB, 0xCD, 0x12, 0x34, 0x00, 0x0A, 0xFF, 0x38, 0x01, 0x90, 0xFC, 0x18] @ replicate 38 0\<rparr>))) =
     \<lparr>IndexOffset = 0xABCD, LearnTimeOffsetHours = 0x1234, LearnTimeGainHours = 0x000A,
       GateMaxDurationMin = 0xFF38, stdInitial = 0x0190, GainFactor = 0xFC18\<rparr> \<and>
   fst (GetVocAlgorithm ((SEN55_ctor (static_storage False []))
      \<lparr>Receive_BUF := [0xAB, 0xCD, 0x12, 0x34, 0x00, 0x0A, 0xFF, 0x38, 0x01, 0x90, 0xFC, 0x18] @ replicate 38 0\<rparr>)) = SEN55_ERR_PROTOCOL \<and>
   fst (snd (GetVocAlgorithm ((SEN55_ctor (static_storage False []))
      \<lparr>Receive_BUF := [0xAB, 0xCD, 0x12, 0x34, 0x00, 0x0A, 0xFF, 0x38, 0x01, 0x90, 0xFC, 0x18] @ replicate 38 0\<rparr>))) =
     \<lparr>IndexOffset = 0xABCD, LearnTimeOffsetHours = 0x1234, LearnTimeGainHours = 0x000A,
       GateMaxDurationMin = 0xFF38, stdInitial = 0x0190, GainFactor = 0xFC18\<rparr> \<and>
   fst (GetTmpComp ((SEN55_ctor (static_storage False []))
      \<lparr>Receive_BUF := [0xAB, 0xCD, 0x12, 0x34, 0x00, 0x0A, 0xFF, 0x38, 0x01, 0x90, 0xFC, 0x18] @ replicate 38 0\<rparr>)) = SEN55_ERR_PROTOCOL \<and>
   fst (snd (GetTmpComp ((SEN55_ctor (static_storage False []))
      \<lparr>Receive_BUF := [0xAB, 0xCD, 0x12, 0x34, 0x00, 0x0A, 0xFF, 0x38, 0x01, 0x90, 0xFC, 0x18] @ replicate 38 0\<rparr>))) =
     \<lparr>offset = 0xFF95, slope = 0x0004, time = 0x000A\<rparr>"
proof -
  let ?s = "((SEN55_ctor (static_storage False []))
        \<lparr>Receive_BUF := [0xAB, 0xCD, 0x12, 0x34, 0x00, 0x0A, 0xFF, 0x38, 0x01, 0x90, 0xFC, 0x18] @ replicate 38 0\<rparr>)"
  have h: "device_out ?s = []" by (simp add: SEN55_ctor_def static_storage_def)
  have B: "Receive_BUF ?s = [0xAB, 0xCD, 0x12, 0x34, 0x00, 0x0A, 0xFF, 0x38, 0x01, 0x90, 0xFC, 0x18,
      0,0,0,0,0,0,0,0,0,0, 0,0,0,0,0,0,0,0,0,0, 0,0,0,0,0,0,0,0,0,0, 0,0,0,0,0,0,0,0]"
    by (simp add: eval_nat_numeral)
  have w: "word16 0xAB 0xCD = 0xABCD" "word16 0x12 0x34 = 0x1234" "word16 0x00 0x0A = 0x000A"
    "word16 0xFF 0x38 = 0xFF38" "word16 0x01 0x90 = 0x0190" "word16 0xFC 0x18 = 0xFC18"
    by code_simp+
  have u: "(push_bit 24 (ucast (0xAB :: u8)) OR push_bit 16 (ucast (0xCD :: u8)) OR
      push_bit 8 (ucast (0x12 :: u8)) OR ucast (0x34 :: u8) :: u32) = 0xABCD1234"
    by code_simp
  have d: "(word_of_int (sint (0xABCD :: s16) sdiv 200) :: s16) = 0xFF95"
    "(word_of_int (sint (0x1234 :: s16) sdiv 1000) :: s16) = 0x0004"
    by code_simp+
  from getters_store_on_error [of ?s] h
  have r: "fst (GetWarmStart ?s) = SEN55_ERR_PROTOCOL"
      "fst (GetRHTAccelMode ?s) = SEN55_ERR_PROTOCOL"
      "fst (GetAutoCleanInt ?s) = SEN55_ERR_PROTOCOL"
      "fst (GetNoxAlgorithm ?s) = SEN55_ERR_PROTOCOL"
      "fst (GetVocAlgorithm ?s) = SEN55_ERR_PROTOCOL"
      "fst (GetTmpComp ?s) = SEN55_ERR_PROTOCOL"
    and k: "Receive_BUF (snd (snd (GetWarmStart ?s))) = Receive_BUF ?s"
      "Receive_BUF (snd (snd (GetRHTAccelMode ?s))) = Receive_BUF ?s"
      "Receive_BUF (snd (snd (GetAutoCleanInt ?s))) = Receive_BUF ?s"
      "Receive_BUF (snd (snd (GetNoxAlgorithm ?s))) = Receive_BUF ?s"
      "Receive_BUF (snd (snd (GetVocAlgorithm ?s))) = Receive_BUF ?s"
      "Receive_BUF (snd (snd (GetTmpComp ?s))) = Receive_BUF ?s"
    by blast+
  from getters_store_on_error [of ?s]
  have v1: "fst (snd (GetWarmStart ?s)) = 0xABCD"
    unfolding k B Let_def by (simp add: w)
  from getters_store_on_error [of ?s]
  have v2: "fst (snd (GetRHTAccelMode ?s)) = 0xABCD"
    unfolding k B Let_def by (simp add: w)
  from getters_store_on_error [of ?s]
  have v3: "fst (snd (GetAutoCleanInt ?s)) = 0xABCD1234"
    unfolding k B Let_def by (simp add: u)
  from getters_store_on_error [of ?s]
  have v4: "fst (snd (GetNoxAlgorithm ?s)) =
      \<lparr>IndexOffset = 0xABCD, LearnTimeOffsetHours = 0x1234, LearnTimeGainHours = 0x000A,
        GateMaxDurationMin = 0xFF38, stdInitial = 0x0190, GainFactor = 0xFC18\<rparr>"
    unfolding k B Let_def by (simp add: w)
  from getters_store_on_error [of ?s]
  have v5: "fst (snd (GetVocAlgorithm ?s)) =
      \<lparr>IndexOffset = 0xABCD, LearnTimeOffsetHours = 0x1234, LearnTimeGainHours = 0x000A,
        GateMaxDurationMin = 0xFF38, stdInitial = 0x0190, GainFactor = 0xFC18\<rparr>"
    unfolding k B Let_def by (simp add: w)
  from getters_store_on_error [of ?s]
  have v6: "fst (snd (GetTmpComp ?s)) = \<lparr>offset = 0xFF95, slope = 0x0004, time = 0x000A\<rparr>"
    unfolding k B Let_def by (simp add: w d)
  from r v1 v2 v3 v4 v5 v6 show ?thesis by simp
qed

end
